theory Spec2Isabelle
  imports Complex_Main "HOL-Library.Log_Nat"
begin

section \<open>Futstar momentum trading backend and oracle service\<close>

text \<open>
  A shallow embedding of \<^verbatim>\<open>src/backend/main.py\<close> (momentum calculator, position
  ledger) and \<^verbatim>\<open>src/backend/oracle_service.py\<close> (momentum oracle).

  Conventions of the embedding:
  \<^item> Python \<^verbatim>\<open>int\<close> is \<^typ>\<open>int\<close>.
  \<^item> Python \<^verbatim>\<open>float\<close> is the datatype \<open>pyfloat\<close> below: a finite value (the
    real number the double stands for), the two infinities, or NaN; the sign of zero
    is not kept. The momentum calculator, of whose result only the range matters, is
    modelled with exact real arithmetic on finite values. The settlement, whose stored
    value matters, is modelled in binary64: every operation is rounded to the nearest
    double, ties to even, and overflows to an infinity.
  \<^item> \<^verbatim>\<open>datetime\<close> is an \<^typ>\<open>int\<close>, the number of microseconds since
    0001-01-01T00:00:00; \<^verbatim>\<open>timedelta\<close> and the sum of a \<^verbatim>\<open>datetime\<close> and a
    \<^verbatim>\<open>timedelta\<close> raise \<^verbatim>\<open>OverflowError\<close> outside their ranges.
  \<^item> A raised exception is a value \<open>Inl e\<close>; the handlers return the store next to
    the result, so that what a failed call did to the store is part of the model.
  \<^item> Random draws, the clock and the network are inputs of the functions that use them.
\<close>

subsection \<open>Exceptions\<close>

datatype py_error =
    HTTPException int string
  | KeyError
  | OverflowError
  | ValueError
  | ZeroDivisionError

subsection \<open>Floats\<close>

datatype pyfloat = Fin real | PInf | NInf | NaN

fun fneg :: "pyfloat \<Rightarrow> pyfloat" where
  "fneg (Fin a) = Fin (- a)"
| "fneg PInf = NInf"
| "fneg NInf = PInf"
| "fneg NaN = NaN"

fun fadd :: "pyfloat \<Rightarrow> pyfloat \<Rightarrow> pyfloat" where
  "fadd NaN _ = NaN"
| "fadd _ NaN = NaN"
| "fadd (Fin a) (Fin b) = Fin (a + b)"
| "fadd PInf NInf = NaN"
| "fadd NInf PInf = NaN"
| "fadd PInf _ = PInf"
| "fadd _ PInf = PInf"
| "fadd NInf _ = NInf"
| "fadd _ NInf = NInf"

text \<open>The sign of a non-zero infinite product.\<close>

definition signed_inf :: "bool \<Rightarrow> pyfloat" where
  "signed_inf positive = (if positive then PInf else NInf)"

fun fmul :: "pyfloat \<Rightarrow> pyfloat \<Rightarrow> pyfloat" where
  "fmul NaN _ = NaN"
| "fmul _ NaN = NaN"
| "fmul (Fin a) (Fin b) = Fin (a * b)"
| "fmul (Fin a) PInf = (if a = 0 then NaN else signed_inf (0 < a))"
| "fmul (Fin a) NInf = (if a = 0 then NaN else signed_inf (a < 0))"
| "fmul PInf (Fin b) = (if b = 0 then NaN else signed_inf (0 < b))"
| "fmul NInf (Fin b) = (if b = 0 then NaN else signed_inf (b < 0))"
| "fmul PInf PInf = PInf"
| "fmul NInf NInf = PInf"
| "fmul PInf NInf = NInf"
| "fmul NInf PInf = NInf"

text \<open>
  Float division raises \<^verbatim>\<open>ZeroDivisionError\<close> on a zero divisor, whatever the
  dividend is.
\<close>

fun fdiv :: "pyfloat \<Rightarrow> pyfloat \<Rightarrow> py_error + pyfloat" where
  "fdiv a (Fin b) =
     (if b = 0 then Inl ZeroDivisionError
      else Inr (case a of
                  Fin x \<Rightarrow> Fin (x / b)
                | PInf \<Rightarrow> signed_inf (0 < b)
                | NInf \<Rightarrow> signed_inf (b < 0)
                | NaN \<Rightarrow> NaN))"
| "fdiv a NaN = Inr NaN"
| "fdiv (Fin x) PInf = Inr (Fin 0)"
| "fdiv (Fin x) NInf = Inr (Fin 0)"
| "fdiv NaN _ = Inr NaN"
| "fdiv _ _ = Inr NaN"

text \<open>\<^verbatim>\<open>x > y\<close> on floats; every comparison with NaN is false.\<close>

fun fgt :: "pyfloat \<Rightarrow> pyfloat \<Rightarrow> bool" where
  "fgt NaN _ = False"
| "fgt _ NaN = False"
| "fgt (Fin a) (Fin b) = (b < a)"
| "fgt PInf PInf = False"
| "fgt PInf _ = True"
| "fgt _ PInf = False"
| "fgt NInf _ = False"
| "fgt _ NInf = True"

text \<open>\<^verbatim>\<open>float(n)\<close> of a Python integer, as the mixed arithmetic of the source does it.\<close>

definition of_pyint :: "int \<Rightarrow> pyfloat" where
  "of_pyint n = Fin (of_int n)"

text \<open>\<^verbatim>\<open>a / b\<close> on two Python integers: true division, a float.\<close>

definition int_truediv :: "int \<Rightarrow> int \<Rightarrow> py_error + pyfloat" where
  "int_truediv a b =
     (if b = 0 then Inl ZeroDivisionError else Inr (Fin (of_int a / of_int b)))"

text \<open>
  \<^verbatim>\<open>int(x)\<close> of a float truncates toward zero; it raises \<^verbatim>\<open>OverflowError\<close> on an
  infinity and \<^verbatim>\<open>ValueError\<close> on NaN.
\<close>

definition trunc :: "real \<Rightarrow> int" where
  "trunc x = (if 0 \<le> x then \<lfloor>x\<rfloor> else \<lceil>x\<rceil>)"

fun py_int :: "pyfloat \<Rightarrow> py_error + int" where
  "py_int (Fin x) = Inr (trunc x)"
| "py_int PInf = Inl OverflowError"
| "py_int NInf = Inl OverflowError"
| "py_int NaN = Inl ValueError"

section \<open>Momentum calculator (main.py)\<close>

text \<open>
  An event of \<^verbatim>\<open>recent_events\<close> is a dictionary; the calculator reads its keys
  \<^verbatim>\<open>team\<close> and \<^verbatim>\<open>type\<close> with \<^verbatim>\<open>e.get\<close>, which gives \<^verbatim>\<open>None\<close> for a missing key.
  The values are modelled as strings.
\<close>

type_synonym event = "string \<rightharpoonup> string"

definition is_danger :: "string \<Rightarrow> event \<Rightarrow> bool" where
  "is_danger team e =
     (e ''team'' = Some team \<and>
      (case e ''type'' of
         None \<Rightarrow> False
       | Some t \<Rightarrow> t \<in> set [''shot'', ''corner'', ''dangerous_attack'']))"

text \<open>\<^verbatim>\<open>xs[-10:]\<close>: the last ten elements, all of them when there are fewer.\<close>

definition last10 :: "'a list \<Rightarrow> 'a list" where
  "last10 xs = drop (length xs - 10) xs"

definition event_score :: "event list \<Rightarrow> int" where
  "event_score recent_events =
     (if recent_events \<noteq> [] then
        (let recent_danger = int (length (filter (is_danger ''home'') (last10 recent_events)));
             recent_danger = recent_danger
                 - int (length (filter (is_danger ''away'') (last10 recent_events)))
         in max 0 (min 10 (5 + recent_danger)))
      else 5)"

definition shots_score :: "int \<Rightarrow> int \<Rightarrow> py_error + pyfloat" where
  "shots_score shots_home shots_away =
     (let total_shots = shots_home + shots_away
      in if total_shots > 0 then
           (case int_truediv shots_home total_shots of
              Inl e \<Rightarrow> Inl e
            | Inr q \<Rightarrow> Inr (fmul q (Fin 20)))
         else Inr (of_pyint 10))"

definition xg_score :: "pyfloat \<Rightarrow> pyfloat \<Rightarrow> py_error + pyfloat" where
  "xg_score xg_home xg_away =
     (let total_xg = fadd xg_home xg_away
      in if fgt total_xg (Fin 0) then
           (case fdiv xg_home total_xg of
              Inl e \<Rightarrow> Inl e
            | Inr q \<Rightarrow> Inr (fmul q (Fin 30)))
         else Inr (of_pyint 15))"

definition field_tilt_score :: "pyfloat \<Rightarrow> py_error + pyfloat" where
  "field_tilt_score field_tilt =
     (case fdiv (fadd field_tilt (Fin 100)) (Fin 200) of
        Inl e \<Rightarrow> Inl e
      | Inr q \<Rightarrow> Inr (fmul q (Fin 20)))"

text \<open>
  \<^verbatim>\<open>MomentumCalculator.calculate_momentum\<close>. The last argument is the value that
  \<^verbatim>\<open>random.gauss(0, 2)\<close> returns, a finite float.
\<close>

definition calculate_momentum ::
  "pyfloat \<Rightarrow> int \<Rightarrow> int \<Rightarrow> pyfloat \<Rightarrow> pyfloat \<Rightarrow> pyfloat \<Rightarrow> event list \<Rightarrow> real
     \<Rightarrow> py_error + int" where
  "calculate_momentum possession shots_home shots_away xg_home xg_away field_tilt
       recent_events volatility =
     (let possession_score = fmul possession (Fin (2 / 10))
      in case shots_score shots_home shots_away of
           Inl e \<Rightarrow> Inl e
         | Inr shots \<Rightarrow>
        (case xg_score xg_home xg_away of
           Inl e \<Rightarrow> Inl e
         | Inr xg \<Rightarrow>
        (case field_tilt_score field_tilt of
           Inl e \<Rightarrow> Inl e
         | Inr tilt \<Rightarrow>
        (let momentum = fadd (fadd (fadd (fadd possession_score shots) xg) tilt)
                             (of_pyint (event_score recent_events));
             momentum = fadd momentum (Fin volatility)
         in case py_int momentum of
              Inl e \<Rightarrow> Inl e
            | Inr m \<Rightarrow> Inr (max 0 (min 100 m))))))"

section \<open>Binary64 arithmetic of the settlement\<close>

text \<open>The integer nearest to \<open>y\<close>, a tie going to the even one.\<close>

definition round_half_even :: "real \<Rightarrow> int" where
  "round_half_even y =
     (let f = \<lfloor>y\<rfloor>; d = y - of_int f
      in if d < 1 / 2 then f
         else if 1 / 2 < d then f + 1
         else if even f then f else f + 1)"

text \<open>\<open>2\<close> to an integer power.\<close>

definition pow2 :: "int \<Rightarrow> real" where
  "pow2 q = (if 0 \<le> q then 2 ^ nat q else 1 / 2 ^ nat (- q))"

text \<open>
  The binary exponent of a positive real: the \<open>e\<close> with \<open>2^e \<le> x < 2^(e+1)\<close>.
  \<open>bitlen n\<close> is the number of binary digits of a positive integer.
\<close>

definition ilog2 :: "real \<Rightarrow> int" where
  "ilog2 x = (if 1 \<le> x then bitlen \<lfloor>x\<rfloor> - 1 else - bitlen (\<lceil>1 / x\<rceil> - 1))"

text \<open>The largest finite double.\<close>

definition double_max :: real where
  "double_max = (2 ^ 53 - 1) * 2 ^ 971"

text \<open>
  The double nearest to a real, ties to even: 53 significant binary digits for a normal
  number, multiples of \<open>2^-1074\<close> below \<open>2^-1022\<close>, an infinity when the rounded
  value is beyond the largest double.
\<close>

definition round_double :: "real \<Rightarrow> pyfloat" where
  "round_double x =
     (if x = 0 then Fin 0
      else
        (let e = ilog2 \<bar>x\<bar>;
             q = max e (- 1022) - 52;
             r = of_int (round_half_even (x / pow2 q)) * pow2 q
         in if double_max < r then PInf
            else if r < - double_max then NInf
            else Fin r))"

text \<open>\<^verbatim>\<open>x * y\<close> on two floats: the product of two finite values is rounded.\<close>

fun dmul :: "pyfloat \<Rightarrow> pyfloat \<Rightarrow> pyfloat" where
  "dmul (Fin a) (Fin b) = round_double (a * b)"
| "dmul x y = fmul x y"

text \<open>
  \<^verbatim>\<open>a / b\<close> on two Python integers: the double nearest to the quotient;
  \<^verbatim>\<open>OverflowError\<close> when the quotient is too large for a double.
\<close>

definition int_truediv_double :: "int \<Rightarrow> int \<Rightarrow> py_error + pyfloat" where
  "int_truediv_double a b =
     (if b = 0 then Inl ZeroDivisionError
      else (case round_double (of_int a / of_int b) of
              Fin q \<Rightarrow> Inr (Fin q)
            | _ \<Rightarrow> Inl OverflowError))"

text \<open>
  \<^verbatim>\<open>round(x, 4)\<close> of a float: the value of the double is rounded to the nearest
  multiple of \<open>1/10000\<close>, a tie going to the even multiple, and the result is the
  double nearest to that decimal; an infinity or NaN is returned as it is.
\<close>

fun py_round4 :: "pyfloat \<Rightarrow> pyfloat" where
  "py_round4 (Fin x) = round_double (of_int (round_half_even (x * 10000)) / 10000)"
| "py_round4 PInf = PInf"
| "py_round4 NInf = NInf"
| "py_round4 NaN = NaN"

section \<open>Position ledger (main.py)\<close>

subsection \<open>Data models\<close>

datatype PositionType = LONG | SHORT

datatype MatchStatus = SCHEDULED | LIVE | FINISHED | CANCELLED

record Team =
  team_id :: string
  team_name :: string
  logo_url :: "string option"

record MatchData =
  md_match_id :: string
  home_team :: Team
  away_team :: Team
  start_time :: int
  status :: MatchStatus
  current_minute :: "int option"
  score_home :: int
  score_away :: int

record MomentumData =
  timestamp :: int
  momentum_index :: int
  possession :: pyfloat
  shots_home :: int
  shots_away :: int
  xg_home :: pyfloat
  xg_away :: pyfloat
  field_tilt :: pyfloat
  danger_home :: pyfloat
  danger_away :: pyfloat

record TradingPosition =
  position_id :: string
  user_wallet :: string
  match_id :: string
  position_type :: PositionType
  amount :: pyfloat
  entry_index :: int
  entry_time :: int
  window_duration :: int
  is_settled :: bool
  pnl :: "pyfloat option"

text \<open>
  \<^verbatim>\<open>OpenPositionRequest\<close>; its fields carry the prefix \<open>req_\<close> since a position
  has fields of the same names. The default of \<^verbatim>\<open>window_duration\<close> (300) is filled
  in when the request is parsed.
\<close>

record OpenPositionRequest =
  req_match_id :: string
  req_position_type :: PositionType
  req_amount :: pyfloat
  req_wallet_address :: string
  req_window_duration :: int

text \<open>\<^verbatim>\<open>DataStore\<close>: four dictionaries.\<close>

record DataStore =
  matches :: "string \<rightharpoonup> MatchData"
  momentum_history :: "string \<rightharpoonup> MomentumData list"
  positions :: "string \<rightharpoonup> TradingPosition"
  user_positions :: "string \<rightharpoonup> string list"

text \<open>The dictionary that \<^verbatim>\<open>settle_position\<close> returns.\<close>

record SettleResponse =
  res_position_id :: string
  res_pnl :: "pyfloat option"
  res_entry_index :: int
  res_exit_index :: int
  res_momentum_change :: int

subsection \<open>Endpoints\<close>

text \<open>
  Every endpoint takes the store and returns its result with the store it leaves.
  \<^verbatim>\<open>MockDataGenerator.generate_momentum_data\<close> draws random numbers; the
  \<^verbatim>\<open>MomentumData\<close> it returns is the argument \<open>current_momentum\<close> of the endpoints
  that call it. \<open>now\<close> is what \<^verbatim>\<open>datetime.now()\<close> returns.
\<close>

text \<open>The last instant of \<^verbatim>\<open>datetime\<close>, 9999-12-31T23:59:59.999999.\<close>

definition datetime_max :: int where
  "datetime_max = 315537897599999999"

text \<open>
  \<^verbatim>\<open>timedelta(seconds=n)\<close>, in microseconds; it raises \<^verbatim>\<open>OverflowError\<close> when
  the number of whole days, \<open>n div 86400\<close>, is beyond 999999999 in magnitude.
\<close>

definition timedelta_seconds :: "int \<Rightarrow> py_error + int" where
  "timedelta_seconds n =
     (if \<bar>n div 86400\<bar> > 999999999 then Inl OverflowError else Inr (n * 1000000))"

text \<open>
  \<^verbatim>\<open>t + d\<close> of a \<^verbatim>\<open>datetime\<close> and a \<^verbatim>\<open>timedelta\<close>; it raises
  \<^verbatim>\<open>OverflowError\<close> when the sum is not a \<^verbatim>\<open>datetime\<close>.
\<close>

definition datetime_add :: "int \<Rightarrow> int \<Rightarrow> py_error + int" where
  "datetime_add t d =
     (if 0 \<le> t + d \<and> t + d \<le> datetime_max then Inr (t + d) else Inl OverflowError)"

text \<open>
  \<^verbatim>\<open>open_position\<close>. \<open>stamp\<close> is the text of \<^verbatim>\<open>datetime.now().timestamp()\<close> in the
  position's identifier, \<open>now\<close> the later clock reading stored as entry time.
\<close>

definition open_position ::
  "DataStore \<Rightarrow> OpenPositionRequest \<Rightarrow> MomentumData \<Rightarrow> string \<Rightarrow> int
     \<Rightarrow> (py_error + TradingPosition) \<times> DataStore" where
  "open_position data_store request current_momentum stamp now =
     (case matches data_store (req_match_id request) of
        None \<Rightarrow> (Inl (HTTPException 404 ''Match not found''), data_store)
      | Some match \<Rightarrow>
          (let position = \<lparr>
                 position_id = ''pos_'' @ stamp,
                 user_wallet = req_wallet_address request,
                 match_id = req_match_id request,
                 position_type = req_position_type request,
                 amount = req_amount request,
                 entry_index = momentum_index current_momentum,
                 entry_time = now,
                 window_duration = req_window_duration request,
                 is_settled = False,
                 pnl = None \<rparr>;
               data_store = data_store\<lparr>positions :=
                 (positions data_store)(position_id position \<mapsto> position)\<rparr>;
               data_store =
                 (if user_positions data_store (req_wallet_address request) = None
                  then data_store\<lparr>user_positions :=
                         (user_positions data_store)(req_wallet_address request \<mapsto> [])\<rparr>
                  else data_store);
               data_store =
                 (case user_positions data_store (req_wallet_address request) of
                    None \<Rightarrow> data_store
                  | Some ids \<Rightarrow> data_store\<lparr>user_positions :=
                      (user_positions data_store)
                        (req_wallet_address request \<mapsto> ids @ [position_id position])\<rparr>)
           in (Inr position, data_store)))"

definition get_position ::
  "DataStore \<Rightarrow> string \<Rightarrow> (py_error + TradingPosition) \<times> DataStore" where
  "get_position data_store pid =
     (case positions data_store pid of
        None \<Rightarrow> (Inl (HTTPException 404 ''Position not found''), data_store)
      | Some position \<Rightarrow> (Inr position, data_store))"

text \<open>
  The profit and loss of \<^verbatim>\<open>settle_position\<close>, before it is rounded:
  lines 392 to 411 of main.py. \<^verbatim>\<open>0.98\<close> is the double nearest to \<open>98/100\<close>.
\<close>

definition calculate_pnl :: "PositionType \<Rightarrow> pyfloat \<Rightarrow> int \<Rightarrow> py_error + pyfloat" where
  "calculate_pnl ptype amt momentum_change =
     (if ptype = LONG then
        (if momentum_change > 0 then
           (case int_truediv_double \<bar>momentum_change\<bar> 100 of
              Inl e \<Rightarrow> Inl e
            | Inr profit_multiplier \<Rightarrow>
                (let pnl = dmul amt profit_multiplier
                 in Inr (dmul pnl (round_double (98 / 100)))))
         else Inr (fneg amt))
      else
        (if momentum_change < 0 then
           (case int_truediv_double \<bar>momentum_change\<bar> 100 of
              Inl e \<Rightarrow> Inl e
            | Inr profit_multiplier \<Rightarrow>
                (let pnl = dmul amt profit_multiplier
                 in Inr (dmul pnl (round_double (98 / 100)))))
         else Inr (fneg amt)))"

definition settle_position ::
  "DataStore \<Rightarrow> string \<Rightarrow> int \<Rightarrow> MomentumData
     \<Rightarrow> (py_error + SettleResponse) \<times> DataStore" where
  "settle_position data_store pid now current_momentum =
     (case positions data_store pid of
        None \<Rightarrow> (Inl (HTTPException 404 ''Position not found''), data_store)
      | Some position \<Rightarrow>
          if is_settled position
          then (Inl (HTTPException 400 ''Position already settled''), data_store)
          else
            (case timedelta_seconds (window_duration position) of
               Inl e \<Rightarrow> (Inl e, data_store)
             | Inr delta \<Rightarrow>
            (case datetime_add (entry_time position) delta of
               Inl e \<Rightarrow> (Inl e, data_store)
             | Inr window_end \<Rightarrow>
                if now < window_end
                then (Inl (HTTPException 400 ''Trading window not ended''), data_store)
                else
                  (case matches data_store (match_id position) of
                     None \<Rightarrow> (Inl KeyError, data_store)
                   | Some match \<Rightarrow>
                       (let momentum_change = momentum_index current_momentum
                              - entry_index position
                        in case calculate_pnl (position_type position) (amount position)
                                  momentum_change of
                             Inl e \<Rightarrow> (Inl e, data_store)
                           | Inr pnl_value \<Rightarrow>
                               (let position = position\<lparr>is_settled := True,
                                                pnl := Some (py_round4 pnl_value)\<rparr>
                                in (Inr \<lparr> res_position_id = pid,
                                      res_pnl = TradingPosition.pnl position,
                                      res_entry_index = entry_index position,
                                      res_exit_index = momentum_index current_momentum,
                                      res_momentum_change = momentum_change \<rparr>,
                                    data_store\<lparr>positions :=
                                      (positions data_store)(pid \<mapsto> position)\<rparr>)))))))"

definition get_user_positions ::
  "DataStore \<Rightarrow> string \<Rightarrow> (py_error + TradingPosition list) \<times> DataStore" where
  "get_user_positions data_store wallet_address =
     (let position_ids =
            (case user_positions data_store wallet_address of None \<Rightarrow> [] | Some ids \<Rightarrow> ids)
      in (Inr (List.map_filter (positions data_store) position_ids), data_store))"

text \<open>
  \<^verbatim>\<open>get_current_momentum\<close>, the one other endpoint that writes to the store: it
  appends the generated sample to the match's history.
\<close>

definition get_current_momentum ::
  "DataStore \<Rightarrow> string \<Rightarrow> MomentumData \<Rightarrow> (py_error + MomentumData) \<times> DataStore" where
  "get_current_momentum data_store mid momentum =
     (case matches data_store mid of
        None \<Rightarrow> (Inl (HTTPException 404 ''Match not found''), data_store)
      | Some match \<Rightarrow>
          (case momentum_history data_store mid of
             None \<Rightarrow> (Inl KeyError, data_store)
           | Some history \<Rightarrow>
               (Inr momentum,
                data_store\<lparr>momentum_history :=
                  (momentum_history data_store)(mid \<mapsto> history @ [momentum])\<rparr>)))"

text \<open>The requests of the position ledger, and the store each of them leaves.\<close>

datatype api_call =
    OpenPosition OpenPositionRequest MomentumData string int
  | SettlePosition string int MomentumData
  | GetPosition string
  | GetUserPositions string
  | GetCurrentMomentum string MomentumData

fun api_step :: "DataStore \<Rightarrow> api_call \<Rightarrow> DataStore" where
  "api_step ds (OpenPosition request cm stamp now) = snd (open_position ds request cm stamp now)"
| "api_step ds (SettlePosition pid now cm) = snd (settle_position ds pid now cm)"
| "api_step ds (GetPosition pid) = snd (get_position ds pid)"
| "api_step ds (GetUserPositions wallet) = snd (get_user_positions ds wallet)"
| "api_step ds (GetCurrentMomentum mid cm) = snd (get_current_momentum ds mid cm)"

section \<open>Momentum oracle (oracle_service.py)\<close>

text \<open>\<^verbatim>\<open>MomentumOracle.validate_momentum_change\<close>; the logging is not modelled.\<close>

definition validate_momentum_change :: "int \<Rightarrow> int \<Rightarrow> int \<Rightarrow> bool" where
  "validate_momentum_change old_index new_index max_change =
     (let change = \<bar>new_index - old_index\<bar>
      in if change > max_change then False else True)"

text \<open>The call with the default \<^verbatim>\<open>max_change = 20\<close>.\<close>

definition validate_momentum_change_default :: "int \<Rightarrow> int \<Rightarrow> bool" where
  "validate_momentum_change_default old_index new_index =
     validate_momentum_change old_index new_index 20"

text \<open>\<^verbatim>\<open>MatchMomentum\<close>; the prefix \<open>mm_\<close> keeps its fields apart from \<open>MomentumData\<close>.\<close>

record MatchMomentum =
  mm_match_id :: string
  mm_momentum_index :: int
  mm_possession :: pyfloat
  mm_shots_home :: int
  mm_shots_away :: int
  mm_xg_home :: pyfloat
  mm_xg_away :: pyfloat
  mm_timestamp :: int

text \<open>An entry of \<^verbatim>\<open>update_history\<close>.\<close>

record UpdateRecord =
  upd_match_id :: string
  upd_momentum_index :: int
  upd_timestamp :: string
  upd_tx_signature :: string

text \<open>
  The state of a \<^verbatim>\<open>MomentumOracle\<close> that the monitor reads and writes; the key
  pair and the RPC client play no part in it.
\<close>

record MomentumOracle =
  active_matches :: "string \<rightharpoonup> MatchMomentum"
  update_history :: "UpdateRecord list"

text \<open>
  What the world does during one pass of the monitor loop.
  \<^verbatim>\<open>fetch_match_data\<close> returns \<^verbatim>\<open>None\<close> (any error of the request is caught inside
  it) or a \<^verbatim>\<open>MatchMomentum\<close>; \<open>TryRaises\<close> stands for an exception that reaches the
  handler of the loop before the state is touched. A publish is described by whether
  the body of \<^verbatim>\<open>update_momentum_on_chain\<close> raises before it records the update, by
  the text of the clock and by the transaction signature.
\<close>

record publish_env =
  publish_raises :: bool
  now_iso :: string
  tx_signature :: string

datatype tick_env =
    TryRaises
  | FetchNone
  | Fetched MatchMomentum publish_env

text \<open>\<^verbatim>\<open>update_momentum_on_chain\<close>: the result and the oracle it leaves.\<close>

definition update_momentum_on_chain ::
  "MomentumOracle \<Rightarrow> string \<Rightarrow> int \<Rightarrow> publish_env \<Rightarrow> bool \<times> MomentumOracle" where
  "update_momentum_on_chain self mid new_index env =
     (if publish_raises env then (False, self)
      else
        (let history = update_history self @
               [\<lparr> upd_match_id = mid,
                  upd_momentum_index = new_index,
                  upd_timestamp = now_iso env,
                  upd_tx_signature = tx_signature env \<rparr>];
             history = (if length history > 100
                        then drop (length history - 100) history else history)
         in (True, self\<lparr>update_history := history\<rparr>)))"

text \<open>The local variables of \<^verbatim>\<open>monitor_match\<close>.\<close>

record monitor_state =
  last_momentum :: int
  consecutive_failures :: int

definition max_failures :: int where
  "max_failures = 5"

text \<open>The body of the \<^verbatim>\<open>while\<close> loop of \<^verbatim>\<open>monitor_match\<close>, without the sleep.\<close>

fun monitor_tick ::
  "string \<Rightarrow> tick_env \<Rightarrow> monitor_state \<Rightarrow> MomentumOracle \<Rightarrow> monitor_state \<times> MomentumOracle"
  where
  "monitor_tick mid TryRaises st self =
     (st\<lparr>consecutive_failures := consecutive_failures st + 1\<rparr>, self)"
| "monitor_tick mid FetchNone st self =
     (st\<lparr>consecutive_failures := consecutive_failures st + 1\<rparr>, self)"
| "monitor_tick mid (Fetched momentum_data env) st self =
     (if validate_momentum_change_default (last_momentum st) (mm_momentum_index momentum_data)
      then
        (case update_momentum_on_chain self mid (mm_momentum_index momentum_data) env of
           (success, self) \<Rightarrow>
             if success
             then (\<lparr> last_momentum = mm_momentum_index momentum_data,
                      consecutive_failures = 0 \<rparr>,
                   self\<lparr>active_matches := (active_matches self)(mid \<mapsto> momentum_data)\<rparr>)
             else (st\<lparr>consecutive_failures := consecutive_failures st + 1\<rparr>, self))
      else (st, self))"

text \<open>
  The loop of \<^verbatim>\<open>monitor_match\<close> can run for ever. It is run here against the list
  of what happens in the coming passes: \<open>Running\<close> is the loop still inside
  \<^verbatim>\<open>while\<close> when the list ends, \<open>Stopped\<close> is the function returned, with the
  oracle it leaves behind.
\<close>

datatype monitor_result =
    Running monitor_state MomentumOracle
  | Stopped MomentumOracle

fun monitor_loop ::
  "string \<Rightarrow> tick_env list \<Rightarrow> monitor_state \<Rightarrow> MomentumOracle \<Rightarrow> monitor_result" where
  "monitor_loop mid [] st self =
     (if consecutive_failures st < max_failures then Running st self
      else Stopped (self\<lparr>active_matches := (active_matches self)(mid := None)\<rparr>))"
| "monitor_loop mid (env # envs) st self =
     (if consecutive_failures st < max_failures
      then (case monitor_tick mid env st self of (st, self) \<Rightarrow> monitor_loop mid envs st self)
      else Stopped (self\<lparr>active_matches := (active_matches self)(mid := None)\<rparr>))"

definition monitor_match :: "string \<Rightarrow> tick_env list \<Rightarrow> MomentumOracle \<Rightarrow> monitor_result" where
  "monitor_match mid envs self =
     monitor_loop mid envs \<lparr> last_momentum = 50, consecutive_failures = 0 \<rparr> self"

section \<open>Predicates and sample data of the properties\<close>

text \<open>
  The invariant of the position ledger: every stored position has a profit and loss
  exactly when it is settled.
\<close>

definition pnl_iff_settled :: "DataStore \<Rightarrow> bool" where
  "pnl_iff_settled ds =
     (\<forall>pid p. positions ds pid = Some p \<longrightarrow> (pnl p \<noteq> None) = is_settled p)"

text \<open>The terms of a position that are set when it is opened.\<close>

definition same_terms :: "TradingPosition \<Rightarrow> TradingPosition \<Rightarrow> bool" where
  "same_terms p p' =
     (amount p' = amount p \<and> window_duration p' = window_duration p
      \<and> entry_index p' = entry_index p \<and> entry_time p' = entry_time p)"

text \<open>
  \<open>creates call ds pid\<close>: the request opens a position and stores it under \<open>pid\<close>.
  The identifier is made from the clock, so an \<^verbatim>\<open>open_position\<close> that reads a time
  stamp already used stores its new position in the place of the earlier one.
\<close>

fun creates :: "api_call \<Rightarrow> DataStore \<Rightarrow> string \<Rightarrow> bool" where
  "creates (OpenPosition request cm stamp now) ds pid =
     (matches ds (req_match_id request) \<noteq> None \<and> pid = ''pos_'' @ stamp)"
| "creates _ ds pid = False"

text \<open>
  Every stored position is on a match of the store; \<^verbatim>\<open>settle_position\<close> looks the
  match up without a check.
\<close>

definition matches_known :: "DataStore \<Rightarrow> bool" where
  "matches_known ds =
     (\<forall>pid p. positions ds pid = Some p \<longrightarrow> matches ds (match_id p) \<noteq> None)"

text \<open>
  \<open>no_create pid ds calls\<close>: none of the requests \<open>calls\<close>, run one after the other
  from \<open>ds\<close>, opens a position under the identifier \<open>pid\<close>.
\<close>

fun no_create :: "string \<Rightarrow> DataStore \<Rightarrow> api_call list \<Rightarrow> bool" where
  "no_create pid ds [] = True"
| "no_create pid ds (call # calls) =
     (\<not> creates call ds pid \<and> no_create pid (api_step ds call) calls)"

text \<open>A pass of the monitor loop in which no reading was fetched.\<close>

definition failed_fetch :: "tick_env \<Rightarrow> bool" where
  "failed_fetch env = (case env of Fetched d p \<Rightarrow> False | _ \<Rightarrow> True)"

text \<open>Sample data: the first match of the mock generator, a store, a position.\<close>

definition example_match :: MatchData where
  "example_match = \<lparr>
     md_match_id = ''match_001'',
     home_team = \<lparr> team_id = ''arsenal'', team_name = ''Arsenal'',
                   logo_url = Some ''/logos/arsenal.png'' \<rparr>,
     away_team = \<lparr> team_id = ''tottenham'', team_name = ''Tottenham'',
                   logo_url = Some ''/logos/tottenham.png'' \<rparr>,
     start_time = 0,
     status = LIVE,
     current_minute = Some 35,
     score_home = 2,
     score_away = 1 \<rparr>"

definition example_momentum :: "int \<Rightarrow> MomentumData" where
  "example_momentum idx = \<lparr>
     timestamp = 0, momentum_index = idx, possession = Fin 55,
     shots_home = 5, shots_away = 3, xg_home = Fin (6 / 10), xg_away = Fin (3 / 10),
     field_tilt = Fin 10, danger_home = Fin (4 / 10), danger_away = Fin (3 / 10) \<rparr>"

definition example_position :: "PositionType \<Rightarrow> pyfloat \<Rightarrow> int \<Rightarrow> TradingPosition" where
  "example_position ptype amt idx = \<lparr>
     position_id = ''pos_1'', user_wallet = ''wallet_a'', match_id = ''match_001'',
     position_type = ptype, amount = amt, entry_index = idx,
     entry_time = 1000000, window_duration = 300,
     is_settled = False, pnl = None \<rparr>"

definition example_store :: "TradingPosition \<Rightarrow> DataStore" where
  "example_store position = \<lparr>
     matches = [''match_001'' \<mapsto> example_match],
     momentum_history = [''match_001'' \<mapsto> []],
     positions = [''pos_1'' \<mapsto> position],
     user_positions = [''wallet_a'' \<mapsto> [''pos_1'']] \<rparr>"

definition empty_store :: DataStore where
  "empty_store = \<lparr>
     matches = [''match_001'' \<mapsto> example_match],
     momentum_history = [''match_001'' \<mapsto> []],
     positions = Map.empty,
     user_positions = Map.empty \<rparr>"

definition bad_request :: OpenPositionRequest where
  "bad_request = \<lparr>
     req_match_id = ''match_001'', req_position_type = LONG, req_amount = Fin (- 5),
     req_wallet_address = ''wallet_a'', req_window_duration = 0 \<rparr>"

text \<open>A request on the sample match, and the store that opening it leaves.\<close>

definition example_request :: "PositionType \<Rightarrow> pyfloat \<Rightarrow> int \<Rightarrow> OpenPositionRequest" where
  "example_request ptype amt window = \<lparr>
     req_match_id = ''match_001'', req_position_type = ptype, req_amount = amt,
     req_wallet_address = ''wallet_a'', req_window_duration = window \<rparr>"

definition example_reading :: "int \<Rightarrow> MatchMomentum" where
  "example_reading idx = \<lparr>
     mm_match_id = ''match_001'', mm_momentum_index = idx, mm_possession = Fin 55,
     mm_shots_home = 5, mm_shots_away = 3, mm_xg_home = Fin (6 / 10),
     mm_xg_away = Fin (3 / 10), mm_timestamp = 0 \<rparr>"

definition example_publish :: "bool \<Rightarrow> publish_env" where
  "example_publish raises = \<lparr>
     publish_raises = raises, now_iso = ''2024-01-01T12:00:00'', tx_signature = ''sig'' \<rparr>"

definition example_oracle :: MomentumOracle where
  "example_oracle = \<lparr> active_matches = Map.empty, update_history = [] \<rparr>"

section \<open>Properties of the binary64 arithmetic\<close>

text \<open>\<open>round_half_even\<close> is a nearest integer, and the even one at a tie.\<close>

lemma round_half_even_nearest:
  "\<bar>of_int (round_half_even y) - y\<bar> \<le> 1 / 2
   \<and> (\<bar>of_int (round_half_even y) - y\<bar> = 1 / 2 \<longrightarrow> even (round_half_even y))"
proof -
  have "of_int \<lfloor>y\<rfloor> \<le> y" and "y < of_int \<lfloor>y\<rfloor> + 1"
    by linarith+
  then show ?thesis
    unfolding round_half_even_def Let_def by auto
qed

text \<open>\<open>ilog2\<close> is the binary exponent.\<close>

lemma pow2_neg: "q \<le> 0 \<Longrightarrow> pow2 q = 1 / 2 ^ nat (- q)"
  by (cases "q = 0") (simp_all add: pow2_def)

lemma of_int_le_power2: "(m::int) \<le> 2 ^ j \<Longrightarrow> (of_int m :: real) \<le> 2 ^ j"
  by (metis of_int_le_iff of_int_numeral of_int_power)

lemma power2_le_of_int: "2 ^ j \<le> (m::int) \<Longrightarrow> (2::real) ^ j \<le> of_int m"
  by (metis of_int_le_iff of_int_numeral of_int_power)

lemma ilog2_bounds:
  assumes "0 < x"
  shows "pow2 (ilog2 x) \<le> x \<and> x < pow2 (ilog2 x + 1)"
proof (cases "1 \<le> x")
  case True
  define n where "n = \<lfloor>x\<rfloor>"
  from True have n: "0 < n" by (simp add: n_def)
  from bitlen_bounds [OF n] have lo: "2 ^ nat (bitlen n - 1) \<le> n" and hi: "n < 2 ^ nat (bitlen n)"
    by simp_all
  from n have len: "1 \<le> bitlen n"
    using bitlen_eq_zero_iff [of n] bitlen_nonneg [of n] by linarith
  have "(2::real) ^ nat (bitlen n - 1) \<le> of_int n"
    using lo by (rule power2_le_of_int)
  also have "of_int n \<le> x" by (simp add: n_def)
  finally have 1: "(2::real) ^ nat (bitlen n - 1) \<le> x" .
  from hi have "n + 1 \<le> 2 ^ nat (bitlen n)" by simp
  then have "(of_int (n + 1) :: real) \<le> 2 ^ nat (bitlen n)"
    by (rule of_int_le_power2)
  moreover have "x < of_int (n + 1)" by (simp add: n_def)
  ultimately have 2: "x < 2 ^ nat (bitlen n)" by linarith
  from True len 1 2 show ?thesis
    by (simp add: ilog2_def pow2_def n_def [symmetric])
next
  case False
  define n where "n = \<lceil>1 / x\<rceil>"
  define k where "k = bitlen (n - 1)"
  from False assms have big: "1 < 1 / x" by simp
  then have n: "0 < n - 1" by (simp add: n_def less_ceiling_iff)
  from bitlen_bounds [OF n] have lo: "2 ^ nat (k - 1) \<le> n - 1" and hi: "n - 1 < 2 ^ nat k"
    by (simp_all add: k_def)
  from n have len: "1 \<le> k"
    using bitlen_eq_zero_iff [of "n - 1"] bitlen_nonneg [of "n - 1"] by (simp add: k_def)
  from hi have "n \<le> 2 ^ nat k" by simp
  then have "(of_int n :: real) \<le> 2 ^ nat k"
    by (rule of_int_le_power2)
  moreover have "1 / x \<le> of_int n" by (simp add: n_def)
  ultimately have "1 / x \<le> 2 ^ nat k" by linarith
  with assms have 1: "1 / 2 ^ nat k \<le> x"
    by (simp add: field_simps)
  have "(2::real) ^ nat (k - 1) \<le> of_int (n - 1)"
    using lo by (rule power2_le_of_int)
  moreover have "of_int (n - 1) < 1 / x"
    unfolding n_def by linarith
  ultimately have "2 ^ nat (k - 1) < 1 / x" by linarith
  with assms have 2: "x < 1 / 2 ^ nat (k - 1)"
    by (simp add: field_simps)
  have "pow2 (ilog2 x) = 1 / 2 ^ nat k"
    using False len by (simp add: ilog2_def pow2_neg n_def k_def)
  moreover have "pow2 (ilog2 x + 1) = 1 / 2 ^ nat (k - 1)"
    using False len by (simp add: ilog2_def pow2_neg n_def k_def)
  ultimately show ?thesis
    using 1 2 by simp
qed

lemma ilog2_le_0: "0 < x \<Longrightarrow> x \<le> 1 \<Longrightarrow> ilog2 x \<le> 0"
proof (cases "1 \<le> x")
  case True
  assume "x \<le> 1"
  with True have "x = 1" by simp
  then show ?thesis by (simp add: ilog2_def compute_bitlen)
next
  case False
  then show ?thesis by (simp add: ilog2_def bitlen_nonneg)
qed

lemma pow2_pos: "0 < pow2 q"
  by (simp add: pow2_def)

lemma pow2_le_1: "q \<le> 0 \<Longrightarrow> pow2 q \<le> 1"
  by (cases "q = 0") (simp_all add: pow2_def field_simps)

lemma double_max_ge: "2 \<le> double_max"
proof -
  have "(2::real) = (2 ^ 1 - 1) * 2 ^ 1" by simp
  also have "\<dots> \<le> (2 ^ 53 - 1) * 2 ^ 971"
    by (intro mult_mono) (simp_all add: power_increasing)
  finally show ?thesis by (simp add: double_max_def)
qed

text \<open>
  A real of magnitude at most 1 is rounded to a finite double, so the quotient of two
  momentum indexes' difference by 100 never overflows.
\<close>

lemma round_double_small:
  assumes "\<bar>x\<bar> \<le> 1"
  shows "\<exists>r. round_double x = Fin r"
proof (cases "x = 0")
  case True
  then show ?thesis by (simp add: round_double_def)
next
  case False
  define q where "q = max (ilog2 \<bar>x\<bar>) (- 1022) - 52"
  define r where "r = of_int (round_half_even (x / pow2 q)) * pow2 q"
  from False assms have "ilog2 \<bar>x\<bar> \<le> 0"
    by (intro ilog2_le_0) simp_all
  then have "q \<le> 0" by (simp add: q_def)
  then have small: "pow2 q \<le> 1" by (rule pow2_le_1)
  have pos: "0 < pow2 q" by (rule pow2_pos)
  have "\<bar>of_int (round_half_even (x / pow2 q)) - x / pow2 q\<bar> \<le> 1 / 2"
    using round_half_even_nearest by blast
  then have "\<bar>of_int (round_half_even (x / pow2 q)) - x / pow2 q\<bar> * pow2 q \<le> 1 / 2 * pow2 q"
    using pos by (intro mult_right_mono) simp_all
  moreover have "\<bar>of_int (round_half_even (x / pow2 q)) - x / pow2 q\<bar> * pow2 q = \<bar>r - x\<bar>"
  proof -
    have "\<bar>of_int (round_half_even (x / pow2 q)) - x / pow2 q\<bar> * pow2 q
        = \<bar>(of_int (round_half_even (x / pow2 q)) - x / pow2 q) * pow2 q\<bar>"
      using pos by (simp add: abs_mult)
    also have "(of_int (round_half_even (x / pow2 q)) - x / pow2 q) * pow2 q = r - x"
      using pos by (simp add: r_def left_diff_distrib)
    finally show ?thesis .
  qed
  ultimately have "\<bar>r - x\<bar> \<le> 1 / 2"
    using small by simp
  with assms have "\<bar>r\<bar> \<le> 2" by linarith
  with double_max_ge have "\<not> double_max < r" and "\<not> r < - double_max"
    by simp_all
  then show ?thesis
    using False by (simp add: round_double_def Let_def q_def [symmetric] r_def [symmetric])
qed

lemma int_truediv_double_percent:
  assumes "\<bar>k\<bar> \<le> 100"
  shows "int_truediv_double k 100 = Inr (round_double (of_int k / 100))"
proof -
  from assms have "\<bar>(of_int k :: real) / 100\<bar> \<le> 1"
    by simp
  then obtain r where "round_double (of_int k / 100) = Fin r"
    using round_double_small by blast
  then show ?thesis
    by (simp add: int_truediv_double_def)
qed

lemma calculate_pnl_percent:
  assumes "\<bar>d\<bar> \<le> 100"
  shows "calculate_pnl t a d = Inr
     (if t = LONG then
        (if d > 0
         then dmul (dmul a (round_double (of_int \<bar>d\<bar> / 100))) (round_double (98 / 100))
         else fneg a)
      else
        (if d < 0
         then dmul (dmul a (round_double (of_int \<bar>d\<bar> / 100))) (round_double (98 / 100))
         else fneg a))"
proof -
  from assms have "\<bar>\<bar>d\<bar>\<bar> \<le> 100" by simp
  then have "int_truediv_double \<bar>d\<bar> 100 = Inr (round_double (of_int \<bar>d\<bar> / 100))"
    by (rule int_truediv_double_percent)
  then show ?thesis
    unfolding calculate_pnl_def by (simp only: sum.case Let_def if_distrib [of Inr])
qed

text \<open>Some doubles: the literals 0.98 and 0.2, and a third.\<close>

lemma round_double_examples:
  "round_double (98 / 100) = Fin (2206763817411543 / 2251799813685248)"
  "round_double (2 / 10) = Fin (3602879701896397 / 18014398509481984)"
  "round_double (1 / 3) = Fin (6004799503160661 / 18014398509481984)"
  by (simp_all add: round_double_def ilog2_def pow2_def round_half_even_def double_max_def
      compute_bitlen Let_def)

section \<open>Properties of the momentum calculator\<close>

text \<open>On finite arguments the three ratio terms are finite, and no division fails.\<close>

lemma shots_score_finite:
  "shots_score sh sa =
     Inr (Fin (if sh + sa > 0 then of_int sh / of_int (sh + sa) * 20 else 10))"
  by (simp add: shots_score_def int_truediv_def of_pyint_def Let_def)

lemma xg_score_finite:
  "xg_score (Fin xh) (Fin xa) =
     Inr (Fin (if xh + xa > 0 then xh / (xh + xa) * 30 else 15))"
  by (simp add: xg_score_def of_pyint_def Let_def)

lemma field_tilt_score_finite:
  "field_tilt_score (Fin ft) = Inr (Fin ((ft + 100) / 200 * 20))"
  by (simp add: field_tilt_score_def)

text \<open>
  C2, as amended. For every finite possession \<open>p\<close>, non-negative integer shot counts,
  finite non-negative xG values, every finite field tilt, every list of recent events
  and every finite value \<open>v\<close> of the Gaussian draw, \<^verbatim>\<open>calculate_momentum\<close> raises
  nothing and returns an integer between 0 and 100. With no shots the shots term is
  the neutral 10 and with no xG the xG term is the neutral 15, so that nothing is
  divided by zero. The claim as stated, for any float, fails: the conversion
  \<^verbatim>\<open>int(momentum)\<close> raises on an infinite or NaN sum.
\<close>

theorem calculate_momentum_finite_bounded:
  assumes "0 \<le> sh" and "0 \<le> sa" and "0 \<le> xh" and "0 \<le> xa"
  shows "(\<exists>m. calculate_momentum (Fin p) sh sa (Fin xh) (Fin xa) (Fin ft) evs v = Inr m
            \<and> 0 \<le> m \<and> m \<le> 100)
         \<and> shots_score 0 0 = Inr (Fin 10)
         \<and> xg_score (Fin 0) (Fin 0) = Inr (Fin 15)"
proof -
  have "\<exists>m. calculate_momentum (Fin p) sh sa (Fin xh) (Fin xa) (Fin ft) evs v = Inr m
            \<and> 0 \<le> m \<and> m \<le> 100"
    unfolding calculate_momentum_def shots_score_finite xg_score_finite
      field_tilt_score_finite
    by (simp add: of_pyint_def Let_def)
  moreover have "shots_score 0 0 = Inr (Fin 10)"
    by (simp add: shots_score_finite)
  moreover have "xg_score (Fin 0) (Fin 0) = Inr (Fin 15)"
    by (simp add: xg_score_finite)
  ultimately show ?thesis by blast
qed

text \<open>
  The all-zero snapshot without noise gives \<open>0 + 10 + 15 + 10 + 5 = 40\<close>; a snapshot
  with shots, xG, tilt, one home shot among the events and a noise of \<open>-1.5\<close> gives
  \<open>10 + 15 + 20 + 12 + 6 - 1.5\<close>, truncated to 61.
\<close>

theorem calculate_momentum_finite_bounded_witness:
  "calculate_momentum (Fin 0) 0 0 (Fin 0) (Fin 0) (Fin 0) [] 0 = Inr 40
   \<and> calculate_momentum (Fin 50) 3 1 (Fin 1) (Fin (1 / 2)) (Fin 20)
        [[''team'' \<mapsto> ''home'', ''type'' \<mapsto> ''shot'']] (- (3 / 2)) = Inr 61
   \<and> shots_score 0 0 = Inr (Fin 10) \<and> xg_score (Fin 0) (Fin 0) = Inr (Fin 15)"
proof -
  have zero: "(0::int) \<le> 0" "(0::real) \<le> 0"
    by simp_all
  have some: "(0::int) \<le> 3" "(0::int) \<le> 1" "(0::real) \<le> 1" "(0::real) \<le> 1 / 2"
    by simp_all
  note all_zero = calculate_momentum_finite_bounded
    [OF zero(1) zero(1) zero(2) zero(2), where p = 0 and ft = 0 and evs = "[]" and v = 0]
  note in_play = calculate_momentum_finite_bounded
    [OF some, where p = 50 and ft = 20
      and evs = "[[''team'' \<mapsto> ''home'', ''type'' \<mapsto> ''shot'']]" and v = "- (3 / 2)"]
  have "calculate_momentum (Fin 0) 0 0 (Fin 0) (Fin 0) (Fin 0) [] 0 = Inr 40"
    by (simp add: calculate_momentum_def shots_score_def xg_score_def field_tilt_score_def
        of_pyint_def event_score_def trunc_def)
  moreover have "calculate_momentum (Fin 50) 3 1 (Fin 1) (Fin (1 / 2)) (Fin 20)
      [[''team'' \<mapsto> ''home'', ''type'' \<mapsto> ''shot'']] (- (3 / 2)) = Inr 61"
    using in_play
    by (simp add: calculate_momentum_def shots_score_def xg_score_def field_tilt_score_def
        int_truediv_def of_pyint_def event_score_def last10_def is_danger_def trunc_def)
  ultimately show ?thesis
    using all_zero by simp
qed

text \<open>
  An infinite possession makes the sum infinite and \<^verbatim>\<open>int\<close> raise
  \<^verbatim>\<open>OverflowError\<close>; a NaN field tilt makes it NaN and \<^verbatim>\<open>int\<close> raise
  \<^verbatim>\<open>ValueError\<close>.
\<close>

theorem calculate_momentum_nonfinite_counterexample:
  "calculate_momentum PInf 0 0 (Fin 0) (Fin 0) (Fin 0) [] 0 = Inl OverflowError
   \<and> calculate_momentum (Fin 50) 0 0 (Fin 0) (Fin 0) NaN [] 0 = Inl ValueError"
  by (simp add: calculate_momentum_def shots_score_def xg_score_def field_tilt_score_def
      of_pyint_def event_score_def signed_inf_def)

section \<open>Properties of the position ledger\<close>

text \<open>The positions and the matches after each endpoint.\<close>

lemma positions_open_position:
  "positions (snd (open_position ds r cm stamp now)) =
     (if matches ds (req_match_id r) = None then positions ds
      else (positions ds)(''pos_'' @ stamp \<mapsto>
        \<lparr> position_id = ''pos_'' @ stamp, user_wallet = req_wallet_address r,
          match_id = req_match_id r, position_type = req_position_type r,
          amount = req_amount r, entry_index = momentum_index cm, entry_time = now,
          window_duration = req_window_duration r, is_settled = False, pnl = None \<rparr>))"
  by (auto simp: open_position_def Let_def)

lemma positions_settle_position:
  "positions (snd (settle_position ds pid now cm)) = positions ds
   \<or> (\<exists>p x. positions ds pid = Some p
         \<and> positions (snd (settle_position ds pid now cm))
             = (positions ds)(pid \<mapsto> p\<lparr>is_settled := True, pnl := Some x\<rparr>))"
  by (auto simp: settle_position_def Let_def split: option.splits sum.splits)

lemma positions_lookups:
  "positions (snd (get_position ds pid)) = positions ds"
  "positions (snd (get_user_positions ds wallet)) = positions ds"
  "positions (snd (get_current_momentum ds mid cm)) = positions ds"
  by (auto simp: get_position_def get_user_positions_def get_current_momentum_def Let_def
      split: option.splits)

lemma matches_api_step: "matches (api_step ds call) = matches ds"
  by (cases call)
    (auto simp: open_position_def settle_position_def get_position_def
      get_user_positions_def get_current_momentum_def Let_def
      split: option.splits sum.splits)

lemma matches_known_api_step:
  assumes "matches_known ds"
  shows "matches_known (api_step ds call)"
  unfolding matches_known_def matches_api_step
proof (intro allI impI)
  fix k q
  assume stored: "positions (api_step ds call) k = Some q"
  show "matches ds (match_id q) \<noteq> None"
  proof (cases call)
    case (OpenPosition r cm stamp now)
    with stored assms show ?thesis
      by (auto simp: matches_known_def positions_open_position split: if_splits)
  next
    case (SettlePosition pid now cm)
    with stored assms positions_settle_position [of ds pid now cm] show ?thesis
      by (auto simp: matches_known_def split: if_splits)
  next
    case (GetPosition pid)
    with stored assms show ?thesis
      by (auto simp: matches_known_def positions_lookups)
  next
    case (GetUserPositions w)
    with stored assms show ?thesis
      by (auto simp: matches_known_def positions_lookups)
  next
    case (GetCurrentMomentum mid cm)
    with stored assms show ?thesis
      by (auto simp: matches_known_def positions_lookups)
  qed
qed

lemma matches_known_run: "matches_known ds \<Longrightarrow> matches_known (foldl api_step ds calls)"
  by (induction calls arbitrary: ds) (simp_all add: matches_known_api_step)

lemma matches_known_reachable:
  assumes "positions ds0 = Map.empty" and "positions (foldl api_step ds0 calls) pid = Some p"
  shows "\<exists>m. matches (foldl api_step ds0 calls) (match_id p) = Some m"
proof -
  from assms(1) have "matches_known ds0"
    by (simp add: matches_known_def)
  then have "matches_known (foldl api_step ds0 calls)"
    by (rule matches_known_run)
  with assms(2) show ?thesis
    by (auto simp: matches_known_def)
qed

text \<open>The three outcomes of a settlement whose deadline is a \<^verbatim>\<open>datetime\<close>.\<close>

lemma settle_position_early:
  assumes "positions ds pid = Some p" and "\<not> is_settled p"
    and "\<bar>window_duration p div 86400\<bar> \<le> 999999999"
    and "0 \<le> entry_time p + window_duration p * 1000000"
    and "entry_time p + window_duration p * 1000000 \<le> 315537897599999999"
    and "now < entry_time p + window_duration p * 1000000"
  shows "settle_position ds pid now cm
      = (Inl (HTTPException 400 ''Trading window not ended''), ds)"
  using assms
  by (simp add: settle_position_def timedelta_seconds_def datetime_add_def datetime_max_def)

lemma settle_position_success:
  assumes "positions ds pid = Some p" and "\<not> is_settled p"
    and "\<bar>window_duration p div 86400\<bar> \<le> 999999999"
    and "0 \<le> entry_time p + window_duration p * 1000000"
    and "entry_time p + window_duration p * 1000000 \<le> 315537897599999999"
    and "entry_time p + window_duration p * 1000000 \<le> now"
    and "matches ds (match_id p) = Some m"
    and "calculate_pnl (position_type p) (amount p) (momentum_index cm - entry_index p)
           = Inr v"
  shows "settle_position ds pid now cm =
     (Inr \<lparr> res_position_id = pid,
            res_pnl = Some (py_round4 v),
            res_entry_index = entry_index p,
            res_exit_index = momentum_index cm,
            res_momentum_change = momentum_index cm - entry_index p \<rparr>,
      ds\<lparr>positions := (positions ds)(pid \<mapsto>
          p\<lparr>is_settled := True, pnl := Some (py_round4 v)\<rparr>)\<rparr>)"
  using assms
  by (simp add: settle_position_def timedelta_seconds_def datetime_add_def datetime_max_def
      Let_def)

lemma settle_position_already_settled:
  assumes "positions ds pid = Some p" and "is_settled p"
  shows "settle_position ds pid now cm
      = (Inl (HTTPException 400 ''Position already settled''), ds)"
  using assms by (simp add: settle_position_def)

text \<open>A settled position stays settled until its identifier is opened again.\<close>

lemma api_step_keeps_settled:
  assumes "positions ds pid = Some p" and "is_settled p" and "\<not> creates call ds pid"
  shows "\<exists>p'. positions (api_step ds call) pid = Some p' \<and> is_settled p'"
proof (cases call)
  case (OpenPosition r cm stamp now)
  with assms show ?thesis
    by (auto simp: positions_open_position)
next
  case (SettlePosition k now cm)
  with assms positions_settle_position [of ds k now cm] show ?thesis
    by auto
next
  case (GetPosition k)
  with assms show ?thesis by (simp add: positions_lookups)
next
  case (GetUserPositions w)
  with assms show ?thesis by (simp add: positions_lookups)
next
  case (GetCurrentMomentum mid cm)
  with assms show ?thesis by (simp add: positions_lookups)
qed

lemma run_keeps_settled:
  assumes "positions ds pid = Some p" and "is_settled p" and "no_create pid ds calls"
  shows "\<exists>p'. positions (foldl api_step ds calls) pid = Some p' \<and> is_settled p'"
  using assms
proof (induction calls arbitrary: ds p)
  case Nil
  then show ?case by simp
next
  case (Cons call calls)
  from Cons.prems obtain p' where "positions (api_step ds call) pid = Some p'"
    and "is_settled p'"
    using api_step_keeps_settled [of ds pid p call] by auto
  with Cons.IH [of "api_step ds call" p'] Cons.prems(3) show ?case
    by simp
qed

lemma example_store_opened:
  "example_store (example_position t a i)
     = foldl api_step empty_store
         [OpenPosition (example_request t a 300) (example_momentum i) ''1'' 1000000]"
  by (simp add: example_store_def example_position_def empty_store_def example_request_def
      example_momentum_def open_position_def Let_def)

text \<open>
  C1, as amended. Let a store be reached by requests from a store without positions,
  and let \<^verbatim>\<open>settle_position\<close> settle one of its positions: the position is not
  settled, its deadline \<open>entry_time + window_duration\<close> is a \<^verbatim>\<open>datetime\<close> and has
  passed, and the exit and entry index differ by at most 100 (both are momentum
  indexes, between 0 and 100). With \<open>delta\<close> the exit index minus the entry index, the
  profit and loss it stores is, in double precision: for LONG and \<open>delta > 0\<close>,
  \<open>amount * (\<bar>delta\<bar> / 100) * 0.98\<close> rounded to 4 decimals; for LONG and
  \<open>delta \<le> 0\<close>, \<open>- amount\<close> rounded to 4 decimals; for SHORT the mirror image (the
  profit when \<open>delta < 0\<close>, the loss when \<open>delta \<ge> 0\<close>). In particular amount 100 and
  \<open>delta = 20\<close> give the double 19.6 as profit and \<open>-100\<close> as loss; amount 0.25 and
  \<open>delta = 3\<close> give the double 0.0073 (the float product is just below 0.00735); the
  loss of amount 0.03125, a tie, is the double \<open>-0.0312\<close>; the product of
  \<open>2^52 + 1\<close> and 1.5, halfway between two doubles, is the even one. The claim
  states the loss as \<open>- amount\<close> itself, which fails for an amount with more than
  4 decimals.
\<close>

theorem settle_position_pnl:
  assumes "positions ds0 = Map.empty" and "ds = foldl api_step ds0 calls"
    and "positions ds pid = Some p" and "\<not> is_settled p"
    and "\<bar>window_duration p div 86400\<bar> \<le> 999999999"
    and "0 \<le> entry_time p + window_duration p * 1000000"
    and "entry_time p + window_duration p * 1000000 \<le> now"
    and "now \<le> 315537897599999999"
    and "\<bar>momentum_index cm - entry_index p\<bar> \<le> 100"
  shows "(\<exists>p'. positions (snd (settle_position ds pid now cm)) pid = Some p'
      \<and> is_settled p'
      \<and> (position_type p = LONG \<and> momentum_index cm - entry_index p > 0 \<longrightarrow>
           pnl p' = Some (py_round4 (dmul
             (dmul (amount p)
                (round_double (of_int \<bar>momentum_index cm - entry_index p\<bar> / 100)))
             (round_double (98 / 100)))))
      \<and> (position_type p = LONG \<and> momentum_index cm - entry_index p \<le> 0 \<longrightarrow>
           pnl p' = Some (py_round4 (fneg (amount p))))
      \<and> (position_type p = SHORT \<and> momentum_index cm - entry_index p < 0 \<longrightarrow>
           pnl p' = Some (py_round4 (dmul
             (dmul (amount p)
                (round_double (of_int \<bar>momentum_index cm - entry_index p\<bar> / 100)))
             (round_double (98 / 100)))))
      \<and> (position_type p = SHORT \<and> momentum_index cm - entry_index p \<ge> 0 \<longrightarrow>
           pnl p' = Some (py_round4 (fneg (amount p)))))
    \<and> py_round4 (dmul (dmul (Fin 100) (round_double (20 / 100))) (round_double (98 / 100)))
        = Fin (2758454771764429 / 140737488355328)
    \<and> py_round4 (fneg (Fin 100)) = Fin (- 100)
    \<and> py_round4 (dmul (dmul (Fin (1 / 4)) (round_double (3 / 100))) (round_double (98 / 100)))
        = Fin (8416326983629983 / 1152921504606846976)
    \<and> py_round4 (fneg (Fin (1 / 32))) = Fin (- (4496393867966703 / 144115188075855872))
    \<and> dmul (Fin 4503599627370497) (Fin (3 / 2)) = Fin 6755399441055746"
proof (intro conjI)
  let ?d = "momentum_index cm - entry_index p"
  from matches_known_reachable [OF assms(1)] assms(2,3)
  obtain m where known: "matches ds (match_id p) = Some m"
    by blast
  from assms(7,8) have range: "entry_time p + window_duration p * 1000000 \<le> 315537897599999999"
    by simp
  note pnl = calculate_pnl_percent [OF assms(9), of "position_type p" "amount p"]
  note ok = settle_position_success [OF assms(3,4,5,6) range assms(7) known pnl]
  show "\<exists>p'. positions (snd (settle_position ds pid now cm)) pid = Some p'
      \<and> is_settled p'
      \<and> (position_type p = LONG \<and> ?d > 0 \<longrightarrow>
           pnl p' = Some (py_round4 (dmul
             (dmul (amount p) (round_double (of_int \<bar>?d\<bar> / 100)))
             (round_double (98 / 100)))))
      \<and> (position_type p = LONG \<and> ?d \<le> 0 \<longrightarrow>
           pnl p' = Some (py_round4 (fneg (amount p))))
      \<and> (position_type p = SHORT \<and> ?d < 0 \<longrightarrow>
           pnl p' = Some (py_round4 (dmul
             (dmul (amount p) (round_double (of_int \<bar>?d\<bar> / 100)))
             (round_double (98 / 100)))))
      \<and> (position_type p = SHORT \<and> ?d \<ge> 0 \<longrightarrow>
           pnl p' = Some (py_round4 (fneg (amount p))))"
    unfolding ok by (cases "position_type p") auto
next
  show "py_round4 (dmul (dmul (Fin 100) (round_double (20 / 100))) (round_double (98 / 100)))
      = Fin (2758454771764429 / 140737488355328)"
    by (simp add: round_double_def ilog2_def pow2_def round_half_even_def double_max_def
        compute_bitlen Let_def)
next
  show "py_round4 (fneg (Fin 100)) = Fin (- 100)"
    by (simp add: round_double_def ilog2_def pow2_def round_half_even_def double_max_def
        compute_bitlen Let_def)
next
  show "py_round4 (dmul (dmul (Fin (1 / 4)) (round_double (3 / 100))) (round_double (98 / 100)))
      = Fin (8416326983629983 / 1152921504606846976)"
    by (simp add: round_double_def ilog2_def pow2_def round_half_even_def double_max_def
        compute_bitlen Let_def)
next
  show "py_round4 (fneg (Fin (1 / 32))) = Fin (- (4496393867966703 / 144115188075855872))"
    by (simp add: round_double_def ilog2_def pow2_def round_half_even_def double_max_def
        compute_bitlen Let_def)
next
  show "dmul (Fin 4503599627370497) (Fin (3 / 2)) = Fin 6755399441055746"
    by (simp add: round_double_def ilog2_def pow2_def round_half_even_def double_max_def
        compute_bitlen Let_def)
qed

text \<open>
  Entry index 40, exit index 60, amount 100: the LONG position is settled at the double
  19.6, the SHORT position at \<open>-100\<close>.
\<close>

theorem settle_position_pnl_witness:
  "positions (snd (settle_position (example_store (example_position LONG (Fin 100) 40))
       ''pos_1'' 301000000 (example_momentum 60))) ''pos_1''
     = Some ((example_position LONG (Fin 100) 40)
          \<lparr>is_settled := True,
            pnl := Some (Fin (2758454771764429 / 140737488355328))\<rparr>)
   \<and> positions (snd (settle_position (example_store (example_position SHORT (Fin 100) 40))
       ''pos_1'' 301000000 (example_momentum 60))) ''pos_1''
     = Some ((example_position SHORT (Fin 100) 40)
          \<lparr>is_settled := True, pnl := Some (Fin (- 100))\<rparr>)"
proof -
  have init: "positions empty_store = Map.empty"
    by (simp add: empty_store_def)
  have stored: "positions (example_store (example_position t (Fin 100) 40)) ''pos_1''
      = Some (example_position t (Fin 100) 40)" for t
    by (simp add: example_store_def)
  have unsettled: "\<not> is_settled (example_position t (Fin 100) 40)" for t
    by (simp add: example_position_def)
  have days: "\<bar>window_duration (example_position t (Fin 100) 40) div 86400\<bar> \<le> 999999999"
    and low: "0 \<le> entry_time (example_position t (Fin 100) 40)
      + window_duration (example_position t (Fin 100) 40) * 1000000"
    and ended: "entry_time (example_position t (Fin 100) 40)
      + window_duration (example_position t (Fin 100) 40) * 1000000 \<le> 301000000"
    and index: "\<bar>momentum_index (example_momentum 60)
      - entry_index (example_position t (Fin 100) 40)\<bar> \<le> 100" for t
    by (simp_all add: example_position_def example_momentum_def)
  have clock: "(301000000::int) \<le> 315537897599999999"
    by simp
  note settled = settle_position_pnl
    [OF init example_store_opened stored unsettled days low ended clock index]
  have long: "position_type (example_position LONG (Fin 100) 40) = LONG
      \<and> momentum_index (example_momentum 60)
          - entry_index (example_position LONG (Fin 100) 40) > 0"
    and short: "position_type (example_position SHORT (Fin 100) 40) = SHORT
      \<and> momentum_index (example_momentum 60)
          - entry_index (example_position SHORT (Fin 100) 40) \<ge> 0"
    by (simp_all add: example_position_def example_momentum_def)
  have delta: "\<bar>momentum_index (example_momentum 60)
      - entry_index (example_position t (Fin 100) 40)\<bar> = 20" for t
    by (simp add: example_position_def example_momentum_def)
  have amt: "amount (example_position t (Fin 100) 40) = Fin 100" for t
    by (simp add: example_position_def)
  from settled [where t1 = LONG] long obtain p' where
    "positions (snd (settle_position (example_store (example_position LONG (Fin 100) 40))
       ''pos_1'' 301000000 (example_momentum 60))) ''pos_1'' = Some p'"
    and "pnl p' = Some (Fin (2758454771764429 / 140737488355328))"
    unfolding delta amt by auto
  moreover from settled [where t1 = SHORT] short obtain q' where
    "positions (snd (settle_position (example_store (example_position SHORT (Fin 100) 40))
       ''pos_1'' 301000000 (example_momentum 60))) ''pos_1'' = Some q'"
    and "pnl q' = Some (Fin (- 100))"
    unfolding delta amt by auto
  ultimately show ?thesis
    by (auto simp: settle_position_def example_store_def example_position_def
        example_momentum_def timedelta_seconds_def datetime_add_def datetime_max_def
        calculate_pnl_def int_truediv_double_def Let_def split: sum.splits pyfloat.splits)
qed

text \<open>
  A LONG position of amount \<open>1/1024 = 0.0009765625\<close> settled at an unchanged index
  stores the double \<open>-0.001\<close>, which is not \<open>- amount\<close>.
\<close>

theorem settle_position_loss_unrounded_counterexample:
  "positions (snd (settle_position (example_store (example_position LONG (Fin (1 / 1024)) 50))
       ''pos_1'' 301000000 (example_momentum 50))) ''pos_1''
     = Some ((example_position LONG (Fin (1 / 1024)) 50)
          \<lparr>is_settled := True,
            pnl := Some (Fin (- (1152921504606847 / 1152921504606846976)))\<rparr>)
   \<and> Fin (- (1152921504606847 / 1152921504606846976))
       \<noteq> fneg (amount (example_position LONG (Fin (1 / 1024)) 50))"
  by (simp add: settle_position_def example_store_def example_position_def
      example_momentum_def timedelta_seconds_def datetime_add_def datetime_max_def
      calculate_pnl_def round_double_def ilog2_def pow2_def round_half_even_def
      double_max_def compute_bitlen Let_def)

text \<open>
  C3, as amended. Let a store be reached by requests from a store without positions,
  and take a position of it that is not settled and whose deadline
  \<open>entry_time + window_duration\<close> is a \<^verbatim>\<open>datetime\<close>: the window duration is within
  the range of \<^verbatim>\<open>timedelta\<close> and the sum within the range of \<^verbatim>\<open>datetime\<close>.
  A call of \<^verbatim>\<open>settle_position\<close> before the deadline fails with
  400 \<^verbatim>\<open>Trading window not ended\<close> and leaves the store as it was. A call at or
  after the deadline, with an exit index at most 100 away from the entry index,
  succeeds; after it, whatever requests follow that do not open a position under the
  same identifier, every call for the position, at any time and index, fails with
  400 \<^verbatim>\<open>Position already settled\<close> and changes nothing. The range of
  \<^verbatim>\<open>timedelta\<close> is 999999999 days either way, that of \<^verbatim>\<open>datetime\<close> the years
  1 to 9999. The claim as stated, for every position, fails: a deadline outside the
  range of \<^verbatim>\<open>datetime\<close> makes the call raise \<^verbatim>\<open>OverflowError\<close>.
\<close>

theorem settle_position_window_then_once:
  assumes "positions ds0 = Map.empty" and "ds = foldl api_step ds0 calls"
    and "positions ds pid = Some p" and "\<not> is_settled p"
    and "\<bar>window_duration p div 86400\<bar> \<le> 999999999"
    and "0 \<le> entry_time p + window_duration p * 1000000"
    and "entry_time p + window_duration p * 1000000 \<le> 315537897599999999"
  shows "(now < entry_time p + window_duration p * 1000000 \<longrightarrow>
            settle_position ds pid now cm
              = (Inl (HTTPException 400 ''Trading window not ended''), ds))
       \<and> (entry_time p + window_duration p * 1000000 \<le> now
            \<and> \<bar>momentum_index cm - entry_index p\<bar> \<le> 100 \<longrightarrow>
            (\<exists>r. fst (settle_position ds pid now cm) = Inr r)
            \<and> (\<forall>later now' cm'.
                 no_create pid (snd (settle_position ds pid now cm)) later \<longrightarrow>
                 settle_position
                     (foldl api_step (snd (settle_position ds pid now cm)) later) pid now' cm'
                   = (Inl (HTTPException 400 ''Position already settled''),
                      foldl api_step (snd (settle_position ds pid now cm)) later)))
       \<and> timedelta_seconds 86399999999999 = Inr 86399999999999000000
       \<and> timedelta_seconds 86400000000000 = Inl OverflowError
       \<and> timedelta_seconds (- 86399999913600) = Inr (- 86399999913600000000)
       \<and> timedelta_seconds (- 86399999913601) = Inl OverflowError
       \<and> datetime_add 0 0 = Inr 0
       \<and> datetime_add 0 (- 1) = Inl OverflowError
       \<and> datetime_add 315537897599999999 0 = Inr 315537897599999999
       \<and> datetime_add 315537897599999999 1 = Inl OverflowError"
proof -
  have main: "(now < entry_time p + window_duration p * 1000000 \<longrightarrow>
            settle_position ds pid now cm
              = (Inl (HTTPException 400 ''Trading window not ended''), ds))
       \<and> (entry_time p + window_duration p * 1000000 \<le> now
            \<and> \<bar>momentum_index cm - entry_index p\<bar> \<le> 100 \<longrightarrow>
            (\<exists>r. fst (settle_position ds pid now cm) = Inr r)
            \<and> (\<forall>later now' cm'.
                 no_create pid (snd (settle_position ds pid now cm)) later \<longrightarrow>
                 settle_position
                     (foldl api_step (snd (settle_position ds pid now cm)) later) pid now' cm'
                   = (Inl (HTTPException 400 ''Position already settled''),
                      foldl api_step (snd (settle_position ds pid now cm)) later)))"
  proof (intro conjI impI allI)
    assume "now < entry_time p + window_duration p * 1000000"
    with assms(3-7) show "settle_position ds pid now cm
        = (Inl (HTTPException 400 ''Trading window not ended''), ds)"
      by (intro settle_position_early)
  next
    assume late: "entry_time p + window_duration p * 1000000 \<le> now
        \<and> \<bar>momentum_index cm - entry_index p\<bar> \<le> 100"
    from matches_known_reachable [OF assms(1)] assms(2,3)
    obtain m where known: "matches ds (match_id p) = Some m"
      by blast
    from late have index: "\<bar>momentum_index cm - entry_index p\<bar> \<le> 100" and
      ended: "entry_time p + window_duration p * 1000000 \<le> now"
      by simp_all
    note pnl = calculate_pnl_percent [OF index, of "position_type p" "amount p"]
    note ok = settle_position_success [OF assms(3-7) ended known pnl]
    show "\<exists>r. fst (settle_position ds pid now cm) = Inr r"
      by (simp add: ok)
    fix later now' cm'
    assume quiet: "no_create pid (snd (settle_position ds pid now cm)) later"
    have "\<exists>q. positions (snd (settle_position ds pid now cm)) pid = Some q \<and> is_settled q"
      by (simp add: ok)
    then obtain q where "positions (snd (settle_position ds pid now cm)) pid = Some q"
      and "is_settled q"
      by blast
    from run_keeps_settled [OF this quiet]
    obtain q' where
      "positions (foldl api_step (snd (settle_position ds pid now cm)) later) pid = Some q'"
      and "is_settled q'"
      by blast
    then show "settle_position
        (foldl api_step (snd (settle_position ds pid now cm)) later) pid now' cm'
      = (Inl (HTTPException 400 ''Position already settled''),
         foldl api_step (snd (settle_position ds pid now cm)) later)"
      by (rule settle_position_already_settled)
  qed
  have range: "timedelta_seconds 86399999999999 = Inr 86399999999999000000
       \<and> timedelta_seconds 86400000000000 = Inl OverflowError
       \<and> timedelta_seconds (- 86399999913600) = Inr (- 86399999913600000000)
       \<and> timedelta_seconds (- 86399999913601) = Inl OverflowError
       \<and> datetime_add 0 0 = Inr 0
       \<and> datetime_add 0 (- 1) = Inl OverflowError
       \<and> datetime_add 315537897599999999 0 = Inr 315537897599999999
       \<and> datetime_add 315537897599999999 1 = Inl OverflowError"
    by (simp add: timedelta_seconds_def datetime_add_def datetime_max_def)
  from main range show ?thesis by blast
qed

text \<open>
  The sample position was opened at second 1 with a window of 300 seconds: one
  microsecond before second 301 the settlement is refused, at second 301 it succeeds,
  and after a lookup and the opening of another position a later one is refused.
\<close>

theorem settle_position_window_then_once_witness:
  "settle_position (example_store (example_position LONG (Fin 100) 40)) ''pos_1'' 300999999
       (example_momentum 60)
     = (Inl (HTTPException 400 ''Trading window not ended''),
        example_store (example_position LONG (Fin 100) 40))
   \<and> isl (fst (settle_position (example_store (example_position LONG (Fin 100) 40))
        ''pos_1'' 301000000 (example_momentum 60))) = False
   \<and> fst (settle_position
        (foldl api_step
           (snd (settle_position (example_store (example_position LONG (Fin 100) 40))
              ''pos_1'' 301000000 (example_momentum 60)))
           [GetPosition ''pos_1'',
            OpenPosition (example_request SHORT (Fin 5) 60) (example_momentum 70) ''2''
              400000000])
        ''pos_1'' 999000000 (example_momentum 70))
     = Inl (HTTPException 400 ''Position already settled'')"
proof -
  let ?p = "example_position LONG (Fin 100) 40"
  let ?ds = "example_store ?p"
  let ?later = "[GetPosition ''pos_1'',
      OpenPosition (example_request SHORT (Fin 5) 60) (example_momentum 70) ''2'' 400000000]"
  have init: "positions empty_store = Map.empty"
    by (simp add: empty_store_def)
  have stored: "positions ?ds ''pos_1'' = Some ?p"
    by (simp add: example_store_def)
  have unsettled: "\<not> is_settled ?p"
    by (simp add: example_position_def)
  have days: "\<bar>window_duration ?p div 86400\<bar> \<le> 999999999"
    and low: "0 \<le> entry_time ?p + window_duration ?p * 1000000"
    and high: "entry_time ?p + window_duration ?p * 1000000 \<le> 315537897599999999"
    by (simp_all add: example_position_def)
  note window = settle_position_window_then_once
    [OF init example_store_opened stored unsettled days low high]
  have early: "300999999 < entry_time ?p + window_duration ?p * 1000000"
    by (simp add: example_position_def)
  have late: "entry_time ?p + window_duration ?p * 1000000 \<le> 301000000
      \<and> \<bar>momentum_index (example_momentum 60) - entry_index ?p\<bar> \<le> 100"
    by (simp add: example_position_def example_momentum_def)
  have 1: "settle_position ?ds ''pos_1'' 300999999 (example_momentum 60)
      = (Inl (HTTPException 400 ''Trading window not ended''), ?ds)"
    using window [of 300999999 "example_momentum 60"] early by blast
  from window [of 301000000 "example_momentum 60"] late
  have 2: "\<exists>r. fst (settle_position ?ds ''pos_1'' 301000000 (example_momentum 60)) = Inr r"
    and 3: "no_create ''pos_1''
        (snd (settle_position ?ds ''pos_1'' 301000000 (example_momentum 60))) later \<Longrightarrow>
      settle_position
          (foldl api_step (snd (settle_position ?ds ''pos_1'' 301000000 (example_momentum 60)))
             later) ''pos_1'' now' cm'
        = (Inl (HTTPException 400 ''Position already settled''),
           foldl api_step (snd (settle_position ?ds ''pos_1'' 301000000 (example_momentum 60)))
             later)" for later now' cm'
    by blast+
  have quiet: "no_create ''pos_1''
      (snd (settle_position ?ds ''pos_1'' 301000000 (example_momentum 60))) ?later"
    by simp
  from 2 have 4: "isl (fst (settle_position ?ds ''pos_1'' 301000000 (example_momentum 60)))
      = False"
    by auto
  from 3 [OF quiet, of 999000000 "example_momentum 70"]
  have 5: "fst (settle_position
      (foldl api_step (snd (settle_position ?ds ''pos_1'' 301000000 (example_momentum 60)))
         ?later) ''pos_1'' 999000000 (example_momentum 70))
    = Inl (HTTPException 400 ''Position already settled'')"
    by simp
  from 1 4 5 show ?thesis by blast
qed

text \<open>
  \<^verbatim>\<open>open_position\<close> accepts a window of \<open>10^12\<close> seconds at 2024-01-01T00:00:00;
  the deadline is beyond year 9999, and the settlement one microsecond later raises
  \<^verbatim>\<open>OverflowError\<close> instead of the refusal. With a window of \<open>-10^11\<close> seconds
  the deadline is before year 1, and the settlement raises instead of succeeding.
\<close>

theorem settle_position_deadline_overflow_counterexample:
  "settle_position
       (snd (open_position empty_store (example_request LONG (Fin 100) 1000000000000)
          (example_momentum 50) ''1704067200.0'' 63839664000000000))
       ''pos_1704067200.0'' 63839664000000001 (example_momentum 60)
     = (Inl OverflowError,
        snd (open_position empty_store (example_request LONG (Fin 100) 1000000000000)
          (example_momentum 50) ''1704067200.0'' 63839664000000000))
   \<and> settle_position
       (snd (open_position empty_store (example_request LONG (Fin 100) (- 100000000000))
          (example_momentum 50) ''1704067200.0'' 63839664000000000))
       ''pos_1704067200.0'' 63839664000000001 (example_momentum 60)
     = (Inl OverflowError,
        snd (open_position empty_store (example_request LONG (Fin 100) (- 100000000000))
          (example_momentum 50) ''1704067200.0'' 63839664000000000))"
  by (simp add: settle_position_def open_position_def empty_store_def example_request_def
      example_momentum_def timedelta_seconds_def datetime_add_def datetime_max_def Let_def)

text \<open>
  C4, as amended. \<^verbatim>\<open>open_position\<close> checks neither the amount nor the window
  duration. It fails only for an unknown match, with 404 \<^verbatim>\<open>Match not found\<close> and
  an unchanged store; for a known match it succeeds for every amount and every window
  duration, also non-positive ones, and stores the new, unsettled position with the
  requested amount and window duration.
\<close>

theorem open_position_unvalidated:
  "(matches ds (req_match_id r) = None \<longrightarrow>
      open_position ds r cm stamp now = (Inl (HTTPException 404 ''Match not found''), ds))
   \<and> (matches ds (req_match_id r) \<noteq> None \<longrightarrow>
      (\<exists>position. fst (open_position ds r cm stamp now) = Inr position
         \<and> positions (snd (open_position ds r cm stamp now)) (''pos_'' @ stamp)
             = Some position
         \<and> amount position = req_amount r
         \<and> window_duration position = req_window_duration r
         \<and> \<not> is_settled position \<and> pnl position = None))"
  by (auto simp: open_position_def Let_def)

theorem open_position_unvalidated_witness:
  "open_position empty_store (bad_request\<lparr>req_match_id := ''match_999''\<rparr>)
       (example_momentum 50) ''1700000000.5'' 1000000
     = (Inl (HTTPException 404 ''Match not found''), empty_store)
   \<and> isl (fst (open_position empty_store bad_request (example_momentum 50)
        ''1700000000.5'' 1000000)) = False"
proof -
  have unknown: "matches empty_store (req_match_id (bad_request\<lparr>req_match_id := ''match_999''\<rparr>))
      = None"
    by (simp add: empty_store_def)
  have known: "matches empty_store (req_match_id bad_request) \<noteq> None"
    by (simp add: empty_store_def bad_request_def)
  have "open_position empty_store (bad_request\<lparr>req_match_id := ''match_999''\<rparr>)
       (example_momentum 50) ''1700000000.5'' 1000000
     = (Inl (HTTPException 404 ''Match not found''), empty_store)"
    using open_position_unvalidated [where ds = empty_store
       and r = "bad_request\<lparr>req_match_id := ''match_999''\<rparr>"
       and cm = "example_momentum 50" and stamp = "''1700000000.5''" and now = 1000000]
      unknown by blast
  moreover have "\<exists>position. fst (open_position empty_store bad_request (example_momentum 50)
        ''1700000000.5'' 1000000) = Inr position"
    using open_position_unvalidated [where ds = empty_store and r = bad_request
       and cm = "example_momentum 50" and stamp = "''1700000000.5''" and now = 1000000]
      known by blast
  ultimately show ?thesis by auto
qed

text \<open>
  A request with amount \<open>-5\<close> and window duration 0 is accepted, and its position is
  stored.
\<close>

theorem open_position_invalid_request_counterexample:
  "fst (open_position empty_store bad_request (example_momentum 50) ''1700000000.5'' 1000000)
     = Inr \<lparr> position_id = ''pos_1700000000.5'', user_wallet = ''wallet_a'',
             match_id = ''match_001'', position_type = LONG, amount = Fin (- 5),
             entry_index = 50, entry_time = 1000000, window_duration = 0,
             is_settled = False, pnl = None \<rparr>
   \<and> positions (snd (open_position empty_store bad_request (example_momentum 50)
         ''1700000000.5'' 1000000)) ''pos_1700000000.5''
     = Some \<lparr> position_id = ''pos_1700000000.5'', user_wallet = ''wallet_a'',
             match_id = ''match_001'', position_type = LONG, amount = Fin (- 5),
             entry_index = 50, entry_time = 1000000, window_duration = 0,
             is_settled = False, pnl = None \<rparr>"
  by (simp add: open_position_def empty_store_def bad_request_def example_momentum_def Let_def)

text \<open>The invariant under an update of the positions.\<close>

lemma pnl_iff_settled_same:
  "pnl_iff_settled ds \<Longrightarrow> positions ds' = positions ds \<Longrightarrow> pnl_iff_settled ds'"
  by (simp add: pnl_iff_settled_def)

lemma pnl_iff_settled_update:
  assumes "pnl_iff_settled ds" and "(pnl p \<noteq> None) = is_settled p"
    and "positions ds' = (positions ds)(pid \<mapsto> p)"
  shows "pnl_iff_settled ds'"
  unfolding pnl_iff_settled_def
proof (intro allI impI)
  fix k q
  assume "positions ds' k = Some q"
  with assms(3) have "(k = pid \<and> q = p) \<or> positions ds k = Some q"
    by (auto split: if_splits)
  with assms(1,2) show "(pnl q \<noteq> None) = is_settled q"
    unfolding pnl_iff_settled_def by blast
qed

lemma api_step_pnl_iff_settled:
  assumes "pnl_iff_settled ds"
  shows "pnl_iff_settled (api_step ds call)"
proof (cases call)
  case (OpenPosition r cm stamp now)
  show ?thesis
  proof (cases "matches ds (req_match_id r) = None")
    case True
    then show ?thesis
      using assms OpenPosition
      by (simp add: pnl_iff_settled_same positions_open_position)
  next
    case False
    then show ?thesis
      using OpenPosition
      by (auto intro!: pnl_iff_settled_update [OF assms]
          simp: positions_open_position)
  qed
next
  case (SettlePosition pid now cm)
  from positions_settle_position [of ds pid now cm] show ?thesis
  proof
    assume "positions (snd (settle_position ds pid now cm)) = positions ds"
    then show ?thesis
      using assms SettlePosition by (simp add: pnl_iff_settled_same)
  next
    assume "\<exists>p x. positions ds pid = Some p
         \<and> positions (snd (settle_position ds pid now cm))
             = (positions ds)(pid \<mapsto> p\<lparr>is_settled := True, pnl := Some x\<rparr>)"
    then obtain p x where
      "positions (snd (settle_position ds pid now cm))
         = (positions ds)(pid \<mapsto> p\<lparr>is_settled := True, pnl := Some x\<rparr>)"
      by blast
    then have "pnl_iff_settled (snd (settle_position ds pid now cm))"
      by (rule pnl_iff_settled_update [OF assms, rotated]) simp
    then show ?thesis
      using SettlePosition by simp
  qed
next
  case (GetPosition pid)
  then show ?thesis
    using assms by (simp add: pnl_iff_settled_same positions_lookups)
next
  case (GetUserPositions w)
  then show ?thesis
    using assms by (simp add: pnl_iff_settled_same positions_lookups)
next
  case (GetCurrentMomentum mid cm)
  then show ?thesis
    using assms by (simp add: pnl_iff_settled_same positions_lookups)
qed

lemma api_step_same_terms:
  assumes "positions ds pid = Some p" and "\<not> creates call ds pid"
  shows "\<exists>p'. positions (api_step ds call) pid = Some p' \<and> same_terms p p'"
proof (cases call)
  case (OpenPosition r cm stamp now)
  then show ?thesis
    using assms by (auto simp: positions_open_position same_terms_def)
next
  case (SettlePosition k now cm)
  then show ?thesis
    using assms positions_settle_position [of ds k now cm]
    by (auto simp: same_terms_def)
next
  case (GetPosition k)
  then show ?thesis
    using assms by (simp add: positions_lookups same_terms_def)
next
  case (GetUserPositions w)
  then show ?thesis
    using assms by (simp add: positions_lookups same_terms_def)
next
  case (GetCurrentMomentum mid cm)
  then show ?thesis
    using assms by (simp add: positions_lookups same_terms_def)
qed

text \<open>
  C5. Every request to the ledger (open, settle, the two position lookups, the momentum
  query) preserves the invariant that a stored position has a profit and loss exactly
  when it is settled; and every position in the store before the request is in the
  store after it under the same identifier with the same amount, window duration, entry
  index and entry time, unless the request is the \<^verbatim>\<open>open_position\<close> that creates
  the position of that identifier.
\<close>

theorem api_step_preserves_position_invariant:
  assumes "pnl_iff_settled ds"
  shows "pnl_iff_settled (api_step ds call)
       \<and> (\<forall>pid p. positions ds pid = Some p \<and> \<not> creates call ds pid \<longrightarrow>
            (\<exists>p'. positions (api_step ds call) pid = Some p' \<and> same_terms p p'))"
  using api_step_pnl_iff_settled [OF assms] api_step_same_terms by blast

theorem api_step_preserves_position_invariant_witness:
  "pnl_iff_settled (example_store (example_position LONG (Fin 100) 40))
   \<and> pnl_iff_settled (api_step (example_store (example_position LONG (Fin 100) 40))
        (SettlePosition ''pos_1'' 301000000 (example_momentum 60)))
   \<and> positions (api_step (example_store (example_position LONG (Fin 100) 40))
        (SettlePosition ''pos_1'' 301000000 (example_momentum 60))) ''pos_1''
     = Some ((example_position LONG (Fin 100) 40)
          \<lparr>is_settled := True, pnl := Some (Fin (2758454771764429 / 140737488355328))\<rparr>)
   \<and> same_terms (example_position LONG (Fin 100) 40)
        ((example_position LONG (Fin 100) 40)
          \<lparr>is_settled := True, pnl := Some (Fin (2758454771764429 / 140737488355328))\<rparr>)"
proof -
  let ?p = "example_position LONG (Fin 100) 40"
  let ?ds = "example_store ?p"
  let ?call = "SettlePosition ''pos_1'' 301000000 (example_momentum 60)"
  have inv: "pnl_iff_settled ?ds"
    by (simp add: pnl_iff_settled_def example_store_def example_position_def)
  have stored: "positions (api_step ?ds ?call) ''pos_1''
      = Some (?p\<lparr>is_settled := True,
                 pnl := Some (Fin (2758454771764429 / 140737488355328))\<rparr>)"
    by (simp add: settle_position_def example_store_def example_position_def
        example_momentum_def timedelta_seconds_def datetime_add_def datetime_max_def
        calculate_pnl_def int_truediv_double_def round_double_def ilog2_def pow2_def
        round_half_even_def double_max_def compute_bitlen Let_def)
  have before: "positions ?ds ''pos_1'' = Some ?p \<and> \<not> creates ?call ?ds ''pos_1''"
    by (simp add: example_store_def)
  from api_step_preserves_position_invariant [OF inv, of ?call] before
  have "pnl_iff_settled (api_step ?ds ?call)"
    and "\<exists>p'. positions (api_step ?ds ?call) ''pos_1'' = Some p' \<and> same_terms ?p p'"
    by blast+
  with inv stored show ?thesis by simp
qed

text \<open>
  The invariant holds in a store without positions, hence after any sequence of
  requests from there.
\<close>

lemma pnl_iff_settled_no_positions: "positions ds = Map.empty \<Longrightarrow> pnl_iff_settled ds"
  by (simp add: pnl_iff_settled_def)

lemma pnl_iff_settled_run: "pnl_iff_settled ds \<Longrightarrow> pnl_iff_settled (foldl api_step ds calls)"
  by (induction calls arbitrary: ds) (simp_all add: api_step_pnl_iff_settled)

section \<open>Properties of the momentum oracle\<close>

text \<open>
  C6. For all integers \<open>old_index\<close>, \<open>new_index\<close> and every bound \<open>max_change\<close>,
  \<^verbatim>\<open>validate_momentum_change\<close> returns true exactly when
  \<open>\<bar>new_index - old_index\<bar> \<le> max_change\<close>; the default bound is 20; the change from
  50 to 80 with bound 20 is rejected and the change from 50 to 65 is accepted.
\<close>

theorem validate_momentum_change_iff:
  "validate_momentum_change old_index new_index max_change
     = (\<bar>new_index - old_index\<bar> \<le> max_change)
   \<and> validate_momentum_change_default old_index new_index
     = (\<bar>new_index - old_index\<bar> \<le> 20)
   \<and> validate_momentum_change 50 80 20 = False
   \<and> validate_momentum_change_default 50 65 = True"
  by (auto simp: validate_momentum_change_def validate_momentum_change_default_def Let_def)

text \<open>The loop of the monitor, one pass at a time.\<close>

lemma monitor_loop_stopped:
  "max_failures \<le> consecutive_failures st \<Longrightarrow>
     monitor_loop mid envs st self
       = Stopped (self\<lparr>active_matches := (active_matches self)(mid := None)\<rparr>)"
  by (cases envs) simp_all

lemma monitor_loop_step:
  "consecutive_failures st < max_failures \<Longrightarrow>
     monitor_loop mid (env # envs) st self
       = monitor_loop mid envs (fst (monitor_tick mid env st self))
           (snd (monitor_tick mid env st self))"
  by (simp add: case_prod_beta)

text \<open>
  C7. The bound \<^verbatim>\<open>max_failures\<close> is 5. Once the failure counter of a monitor has
  reached it, \<^verbatim>\<open>monitor_match\<close> returns, whatever the coming passes would have
  fetched: none of them is run, and the oracle it leaves is the one it had with the
  match taken out of \<^verbatim>\<open>active_matches\<close>. In particular a failed fetch at counter 4
  ends the monitor. While the counter is below 5 the loop goes on: it is still running
  when nothing more happens, and otherwise runs the next pass and goes on from the
  state that pass leaves.
\<close>

theorem monitor_loop_stops_at_max_failures:
  "max_failures = 5
   \<and> (max_failures \<le> consecutive_failures st \<longrightarrow>
        monitor_loop mid envs st self
          = Stopped (self\<lparr>active_matches := (active_matches self)(mid := None)\<rparr>))
   \<and> (consecutive_failures st = max_failures - 1 \<longrightarrow>
        monitor_loop mid (FetchNone # envs) st self
          = Stopped (self\<lparr>active_matches := (active_matches self)(mid := None)\<rparr>))
   \<and> (consecutive_failures st < max_failures \<longrightarrow>
        monitor_loop mid [] st self = Running st self
        \<and> monitor_loop mid (env # envs) st self
            = monitor_loop mid envs (fst (monitor_tick mid env st self))
                (snd (monitor_tick mid env st self)))"
proof (intro conjI impI)
  show "max_failures = 5" by (simp add: max_failures_def)
next
  assume "max_failures \<le> consecutive_failures st"
  then show "monitor_loop mid envs st self
      = Stopped (self\<lparr>active_matches := (active_matches self)(mid := None)\<rparr>)"
    by (rule monitor_loop_stopped)
next
  assume last: "consecutive_failures st = max_failures - 1"
  then have "consecutive_failures st < max_failures" by simp
  then have "monitor_loop mid (FetchNone # envs) st self
      = monitor_loop mid envs (st\<lparr>consecutive_failures := consecutive_failures st + 1\<rparr>) self"
    by (simp add: monitor_loop_step)
  also have "\<dots> = Stopped (self\<lparr>active_matches := (active_matches self)(mid := None)\<rparr>)"
    using last by (intro monitor_loop_stopped) simp
  finally show "monitor_loop mid (FetchNone # envs) st self
      = Stopped (self\<lparr>active_matches := (active_matches self)(mid := None)\<rparr>)" .
next
  assume "consecutive_failures st < max_failures"
  then show "monitor_loop mid [] st self = Running st self"
    by simp
next
  assume "consecutive_failures st < max_failures"
  then show "monitor_loop mid (env # envs) st self
      = monitor_loop mid envs (fst (monitor_tick mid env st self))
          (snd (monitor_tick mid env st self))"
    by (rule monitor_loop_step)
qed

text \<open>
  At counter 4 a failed fetch stops the monitor of a match that was active: the next
  pass, a valid reading, is not run, and the match is no longer active. At counter 4
  with nothing more to happen the monitor is still running; at counter 5 it stops
  without running a pass.
\<close>

theorem monitor_loop_stops_at_max_failures_witness:
  "monitor_loop ''match_001''
       [FetchNone, Fetched (example_reading 55) (example_publish False)]
       \<lparr> last_momentum = 50, consecutive_failures = 4 \<rparr>
       (example_oracle\<lparr>active_matches := [''match_001'' \<mapsto> example_reading 50]\<rparr>)
     = Stopped example_oracle
   \<and> monitor_loop ''match_001'' [] \<lparr> last_momentum = 50, consecutive_failures = 4 \<rparr>
       example_oracle
     = Running \<lparr> last_momentum = 50, consecutive_failures = 4 \<rparr> example_oracle
   \<and> monitor_loop ''match_001'' [Fetched (example_reading 55) (example_publish False)]
       \<lparr> last_momentum = 50, consecutive_failures = 5 \<rparr>
       (example_oracle\<lparr>active_matches := [''match_001'' \<mapsto> example_reading 50]\<rparr>)
     = Stopped example_oracle"
proof -
  let ?active = "example_oracle\<lparr>active_matches := [''match_001'' \<mapsto> example_reading 50]\<rparr>"
  have removed: "?active\<lparr>active_matches := (active_matches ?active)(''match_001'' := None)\<rparr>
      = example_oracle"
    by (simp add: example_oracle_def)
  have four: "consecutive_failures \<lparr> last_momentum = 50, consecutive_failures = 4 \<rparr>
      = max_failures - 1"
    and below: "consecutive_failures \<lparr> last_momentum = 50, consecutive_failures = 4 \<rparr>
      < max_failures"
    and five: "max_failures
      \<le> consecutive_failures \<lparr> last_momentum = 50, consecutive_failures = 5 \<rparr>"
    by (simp_all add: max_failures_def)
  have "monitor_loop ''match_001''
       [FetchNone, Fetched (example_reading 55) (example_publish False)]
       \<lparr> last_momentum = 50, consecutive_failures = 4 \<rparr> ?active
     = Stopped example_oracle"
    using monitor_loop_stops_at_max_failures
      [where st = "\<lparr> last_momentum = 50, consecutive_failures = 4 \<rparr>"
        and mid = "''match_001''"
        and envs = "[Fetched (example_reading 55) (example_publish False)]"
        and self = ?active]
      four removed by simp
  moreover have "monitor_loop ''match_001'' []
       \<lparr> last_momentum = 50, consecutive_failures = 4 \<rparr> example_oracle
     = Running \<lparr> last_momentum = 50, consecutive_failures = 4 \<rparr> example_oracle"
    using monitor_loop_stops_at_max_failures
      [where st = "\<lparr> last_momentum = 50, consecutive_failures = 4 \<rparr>"
        and mid = "''match_001''" and self = example_oracle]
      below by blast
  moreover have "monitor_loop ''match_001''
       [Fetched (example_reading 55) (example_publish False)]
       \<lparr> last_momentum = 50, consecutive_failures = 5 \<rparr> ?active
     = Stopped example_oracle"
    using monitor_loop_stops_at_max_failures
      [where st = "\<lparr> last_momentum = 50, consecutive_failures = 5 \<rparr>"
        and mid = "''match_001''"
        and envs = "[Fetched (example_reading 55) (example_publish False)]"
        and self = ?active]
      five removed by simp
  ultimately show ?thesis by blast
qed

text \<open>
  C8, as amended. At the end of a pass whose fetch succeeded, the failure counter is 0
  only if the reading passed the validation and the publish succeeded; it is one more
  than before if the reading passed and the publish failed; it is what it was if the
  reading was rejected. The claim as stated, a reset whatever the validation and the
  publish do, fails.
\<close>

theorem monitor_tick_failure_counter:
  "consecutive_failures (fst (monitor_tick mid (Fetched d env) st self)) =
     (if validate_momentum_change_default (last_momentum st) (mm_momentum_index d)
      then (if publish_raises env then consecutive_failures st + 1 else 0)
      else consecutive_failures st)"
  by (simp add: update_momentum_on_chain_def Let_def)

theorem monitor_tick_failure_counter_witness:
  "consecutive_failures (fst (monitor_tick ''match_001''
       (Fetched (example_reading 60) (example_publish False))
       \<lparr> last_momentum = 50, consecutive_failures = 3 \<rparr> example_oracle)) = 0"
  using monitor_tick_failure_counter [where mid = "''match_001''"
      and d = "example_reading 60" and env = "example_publish False"
      and st = "\<lparr> last_momentum = 50, consecutive_failures = 3 \<rparr>" and self = example_oracle]
  by (simp add: validate_momentum_change_default_def validate_momentum_change_def
      example_reading_def example_publish_def)

text \<open>
  From counter 3 and last index 50: a fetched reading of 80 is rejected and leaves the
  counter at 3; a fetched reading of 60 whose publish fails leaves it at 4.
\<close>

theorem monitor_tick_fetch_success_no_reset_counterexample:
  "consecutive_failures (fst (monitor_tick ''match_001''
       (Fetched (example_reading 80) (example_publish False))
       \<lparr> last_momentum = 50, consecutive_failures = 3 \<rparr> example_oracle)) = 3
   \<and> consecutive_failures (fst (monitor_tick ''match_001''
       (Fetched (example_reading 60) (example_publish True))
       \<lparr> last_momentum = 50, consecutive_failures = 3 \<rparr> example_oracle)) = 4"
  by (simp add: update_momentum_on_chain_def validate_momentum_change_default_def
      validate_momentum_change_def example_reading_def example_publish_def Let_def)

text \<open>
  C9. A pass whose fetched reading fails \<^verbatim>\<open>validate_momentum_change\<close> changes
  nothing: the update history and the active matches of the oracle, the last trusted
  index and the failure counter are what they were.
\<close>

theorem monitor_tick_rejected_reading:
  assumes "\<not> validate_momentum_change_default (last_momentum st) (mm_momentum_index d)"
  shows "monitor_tick mid (Fetched d env) st self = (st, self)"
  using assms by simp

theorem monitor_tick_rejected_reading_witness:
  "\<not> validate_momentum_change_default 50 80
   \<and> monitor_tick ''match_001'' (Fetched (example_reading 80) (example_publish False))
       \<lparr> last_momentum = 50, consecutive_failures = 2 \<rparr> example_oracle
     = (\<lparr> last_momentum = 50, consecutive_failures = 2 \<rparr>, example_oracle)"
proof -
  have rejected: "\<not> validate_momentum_change_default
      (last_momentum \<lparr> last_momentum = 50, consecutive_failures = 2 \<rparr>)
      (mm_momentum_index (example_reading 80))"
    by (simp add: validate_momentum_change_default_def validate_momentum_change_def
        example_reading_def)
  then have "\<not> validate_momentum_change_default 50 80"
    by (simp add: example_reading_def)
  with monitor_tick_rejected_reading [OF rejected, where mid = "''match_001''"
      and env = "example_publish False" and self = example_oracle]
  show ?thesis by simp
qed

text \<open>Passes without a reading only count up.\<close>

lemma monitor_loop_failed_prefix:
  assumes "\<forall>e \<in> set pre. failed_fetch e"
    and "consecutive_failures st + int (length pre) \<le> max_failures"
  shows "monitor_loop mid (pre @ rest) st self
     = monitor_loop mid rest
         (st\<lparr>consecutive_failures := consecutive_failures st + int (length pre)\<rparr>) self"
  using assms
proof (induction pre arbitrary: st)
  case Nil
  then show ?case by simp
next
  case (Cons e pre)
  from Cons.prems(2) have below: "consecutive_failures st < max_failures"
    by simp
  from Cons.prems(1) have tick: "monitor_tick mid e st self
      = (st\<lparr>consecutive_failures := consecutive_failures st + 1\<rparr>, self)"
    by (cases e) (simp_all add: failed_fetch_def)
  have "monitor_loop mid ((e # pre) @ rest) st self
      = monitor_loop mid (pre @ rest)
          (st\<lparr>consecutive_failures := consecutive_failures st + 1\<rparr>) self"
    using below by (simp add: tick)
  also have "\<dots> = monitor_loop mid rest
      (st\<lparr>consecutive_failures := consecutive_failures st + int (length (e # pre))\<rparr>) self"
    using Cons.IH [of "st\<lparr>consecutive_failures := consecutive_failures st + 1\<rparr>"]
      Cons.prems by (simp add: algebra_simps)
  finally show ?case .
qed

text \<open>
  C10. \<^verbatim>\<open>monitor_match\<close> starts with last trusted index 50. After fewer than five
  passes without a reading, the first fetched reading is handled from last index 50: if
  its index is in \<open>[30, 70]\<close> it is published, and on success becomes the last trusted
  index and the entry of the match in \<^verbatim>\<open>active_matches\<close>; if its index is outside
  \<open>[30, 70]\<close> it is rejected, and the monitor state and the oracle stay as they were.
\<close>

theorem monitor_match_first_reading:
  assumes "\<forall>e \<in> set pre. failed_fetch e" and "int (length pre) < max_failures"
  shows "monitor_match mid (pre @ Fetched d env # rest) self
      = monitor_loop mid rest
          (fst (monitor_tick mid (Fetched d env)
                  \<lparr> last_momentum = 50, consecutive_failures = int (length pre) \<rparr> self))
          (snd (monitor_tick mid (Fetched d env)
                  \<lparr> last_momentum = 50, consecutive_failures = int (length pre) \<rparr> self))
    \<and> monitor_tick mid (Fetched d env)
          \<lparr> last_momentum = 50, consecutive_failures = int (length pre) \<rparr> self
      = (if 30 \<le> mm_momentum_index d \<and> mm_momentum_index d \<le> 70
         then (if fst (update_momentum_on_chain self mid (mm_momentum_index d) env)
               then (\<lparr> last_momentum = mm_momentum_index d, consecutive_failures = 0 \<rparr>,
                     (snd (update_momentum_on_chain self mid (mm_momentum_index d) env))
                       \<lparr>active_matches :=
                          (active_matches
                             (snd (update_momentum_on_chain self mid (mm_momentum_index d) env)))
                          (mid \<mapsto> d)\<rparr>)
               else (\<lparr> last_momentum = 50, consecutive_failures = int (length pre) + 1 \<rparr>,
                     snd (update_momentum_on_chain self mid (mm_momentum_index d) env)))
         else (\<lparr> last_momentum = 50, consecutive_failures = int (length pre) \<rparr>, self))"
proof
  let ?st = "\<lparr> last_momentum = 50, consecutive_failures = int (length pre) \<rparr>"
  have "monitor_match mid (pre @ Fetched d env # rest) self
      = monitor_loop mid (Fetched d env # rest) ?st self"
    unfolding monitor_match_def
    using monitor_loop_failed_prefix [OF assms(1), of
        "\<lparr> last_momentum = 50, consecutive_failures = 0 \<rparr>" mid "Fetched d env # rest" self]
      assms(2)
    by simp
  also have "\<dots> = monitor_loop mid rest (fst (monitor_tick mid (Fetched d env) ?st self))
      (snd (monitor_tick mid (Fetched d env) ?st self))"
    using assms(2) by (intro monitor_loop_step) simp
  finally show "monitor_match mid (pre @ Fetched d env # rest) self
      = monitor_loop mid rest (fst (monitor_tick mid (Fetched d env) ?st self))
          (snd (monitor_tick mid (Fetched d env) ?st self))" .
next
  have band: "validate_momentum_change_default 50 (mm_momentum_index d)
      = (30 \<le> mm_momentum_index d \<and> mm_momentum_index d \<le> 70)"
    by (auto simp: validate_momentum_change_default_def validate_momentum_change_def)
  show "monitor_tick mid (Fetched d env)
          \<lparr> last_momentum = 50, consecutive_failures = int (length pre) \<rparr> self
      = (if 30 \<le> mm_momentum_index d \<and> mm_momentum_index d \<le> 70
         then (if fst (update_momentum_on_chain self mid (mm_momentum_index d) env)
               then (\<lparr> last_momentum = mm_momentum_index d, consecutive_failures = 0 \<rparr>,
                     (snd (update_momentum_on_chain self mid (mm_momentum_index d) env))
                       \<lparr>active_matches :=
                          (active_matches
                             (snd (update_momentum_on_chain self mid (mm_momentum_index d) env)))
                          (mid \<mapsto> d)\<rparr>)
               else (\<lparr> last_momentum = 50, consecutive_failures = int (length pre) + 1 \<rparr>,
                     snd (update_momentum_on_chain self mid (mm_momentum_index d) env)))
         else (\<lparr> last_momentum = 50, consecutive_failures = int (length pre) \<rparr>, self))"
    by (simp add: band case_prod_beta)
qed

text \<open>
  After one failed fetch, a first reading of 71 is rejected and a first reading of 70 is
  published.
\<close>

theorem monitor_match_first_reading_witness:
  "monitor_match ''match_001''
       [FetchNone, Fetched (example_reading 71) (example_publish False)] example_oracle
     = Running \<lparr> last_momentum = 50, consecutive_failures = 1 \<rparr> example_oracle
   \<and> monitor_match ''match_001''
       [FetchNone, Fetched (example_reading 70) (example_publish False)] example_oracle
     = Running \<lparr> last_momentum = 70, consecutive_failures = 0 \<rparr>
         \<lparr> active_matches = [''match_001'' \<mapsto> example_reading 70],
           update_history = [\<lparr> upd_match_id = ''match_001'', upd_momentum_index = 70,
              upd_timestamp = ''2024-01-01T12:00:00'', upd_tx_signature = ''sig'' \<rparr>] \<rparr>"
proof -
  have failed: "\<forall>e \<in> set [FetchNone]. failed_fetch e"
    by (simp add: failed_fetch_def)
  have few: "int (length [FetchNone]) < max_failures"
    by (simp add: max_failures_def)
  note first = monitor_match_first_reading [OF failed few, where mid = "''match_001''"
      and env = "example_publish False" and rest = "[]" and self = example_oracle]
  show ?thesis
    using first [where d = "example_reading 71"] first [where d = "example_reading 70"]
    by (simp add: max_failures_def example_reading_def example_publish_def
        example_oracle_def update_momentum_on_chain_def Let_def)
qed

end
